theory Spec2Isabelle
  imports Main "HOL-Library.Log_Nat" "HOL-Library.List_Lexorder" "HOL-Library.Char_ord"
begin

chapter \<open>The batch minting script\<close>

text \<open>
  A model of the minting script of \<open>PKConverter.js\<close>: \<open>uploadFile\<close>,
  \<open>mintSingleNFT\<close>, \<open>batchMintNFTs\<close> and the line that starts it. The two key
  conversion scripts of the same file only decode a key and write \<open>keypair.json\<close>;
  they are not modelled. The storage network, the ledger and the file system are
  parameters: records of the answers they give. Lines written to the console are left
  out, but for the batch number logged for each chunk.
\<close>

section \<open>JavaScript numbers\<close>

text \<open>
  The minting script computes with JavaScript numbers, which are IEEE-754 binary64
  values. A finite number is modelled by the rational it denotes; every arithmetic
  operation computes the exact result and rounds it to the nearest binary64 value, ties
  to the even significand (\<open>fl\<close>). The sign of zero is not tracked: every zero is
  \<open>Fin 0\<close>.
\<close>

datatype jsnum = Fin rat | PInf | NInf | NaN

text \<open>For \<open>0 < x\<close>, \<open>ilog2 x\<close> is the exponent \<open>e\<close> with \<open>2 powi e \<le> x < 2 powi (e + 1)\<close>.\<close>

definition ilog2 :: "rat \<Rightarrow> int" where
  "ilog2 x = (case quotient_of x of (p, q) \<Rightarrow>
     let k = int (floorlog 2 (nat p)) - int (floorlog 2 (nat q))
     in if 2 powi k \<le> x then k else k - 1)"

definition round_half_even :: "rat \<Rightarrow> int" where
  "round_half_even r = (let f = \<lfloor>r\<rfloor>; d = r - of_int f
     in if d < 1 / 2 then f else if 1 / 2 < d then f + 1 else if even f then f else f + 1)"

text \<open>
  Rounding to binary64: 53 significant bits, the least exponent of a normal number is
  \<open>-1022\<close> (below it the spacing stays \<open>2 powi (-1074)\<close>), and a result that rounds to
  \<open>2 powi 1024\<close> or more is an infinity.
\<close>

definition fl :: "rat \<Rightarrow> jsnum" where
  "fl x = (if x = 0 then Fin 0 else
     let e = max (ilog2 \<bar>x\<bar>) (- 1022) - 52;
         y = of_int (round_half_even (\<bar>x\<bar> / 2 powi e)) * 2 powi e
     in if 2 powi 1024 \<le> y then (if 0 < x then PInf else NInf) else Fin (sgn x * y))"

fun js_neg :: "jsnum \<Rightarrow> jsnum" where
  "js_neg (Fin x) = Fin (- x)"
| "js_neg PInf = NInf"
| "js_neg NInf = PInf"
| "js_neg NaN = NaN"

text \<open>\<open>a > b\<close>: false whenever an operand is \<open>NaN\<close>.\<close>

fun js_gt :: "jsnum \<Rightarrow> jsnum \<Rightarrow> bool" where
  "js_gt (Fin x) (Fin y) = (y < x)"
| "js_gt NaN b = False"
| "js_gt a NaN = False"
| "js_gt PInf PInf = False"
| "js_gt PInf b = True"
| "js_gt a PInf = False"
| "js_gt NInf b = False"
| "js_gt a NInf = True"

text \<open>\<open>a - b\<close>.\<close>

fun js_sub :: "jsnum \<Rightarrow> jsnum \<Rightarrow> jsnum" where
  "js_sub (Fin x) (Fin y) = fl (x - y)"
| "js_sub NaN b = NaN"
| "js_sub a NaN = NaN"
| "js_sub PInf PInf = NaN"
| "js_sub NInf NInf = NaN"
| "js_sub PInf b = PInf"
| "js_sub NInf b = NInf"
| "js_sub a b = js_neg b"

text \<open>\<open>a * b\<close>: an infinity times zero is \<open>NaN\<close>.\<close>

fun js_mul :: "jsnum \<Rightarrow> jsnum \<Rightarrow> jsnum" where
  "js_mul (Fin x) (Fin y) = fl (x * y)"
| "js_mul NaN b = NaN"
| "js_mul a NaN = NaN"
| "js_mul (Fin x) b = (if x = 0 then NaN else if 0 < x then b else js_neg b)"
| "js_mul a (Fin y) = (if y = 0 then NaN else if 0 < y then a else js_neg a)"
| "js_mul PInf b = b"
| "js_mul NInf b = js_neg b"

text \<open>
  \<open>a / b\<close>: a finite number divided by zero is an infinity of the sign of the
  dividend, zero divided by zero is \<open>NaN\<close>.
\<close>

fun js_div :: "jsnum \<Rightarrow> jsnum \<Rightarrow> jsnum" where
  "js_div (Fin x) (Fin y) =
     (if y = 0 then (if x = 0 then NaN else if 0 < x then PInf else NInf) else fl (x / y))"
| "js_div NaN b = NaN"
| "js_div a NaN = NaN"
| "js_div (Fin x) b = Fin 0"
| "js_div a (Fin y) = (if 0 \<le> y then a else js_neg a)"
| "js_div a b = NaN"

fun Math_ceil :: "jsnum \<Rightarrow> jsnum" where
  "Math_ceil (Fin x) = Fin (of_int \<lceil>x\<rceil>)"
| "Math_ceil a = a"

text \<open>A number is falsy when it is zero or \<open>NaN\<close>.\<close>

fun truthy :: "jsnum \<Rightarrow> bool" where
  "truthy (Fin x) = (x \<noteq> 0)"
| "truthy NaN = False"
| "truthy a = True"

section \<open>Data of the minting script\<close>

text \<open>
  A thrown value is an \<open>Error\<close> object; only its \<open>message\<close> is read by the script.
\<close>

datatype error = Error (message: string)

text \<open>
  The \<open>CONFIG\<close> object. The functions below take it as a parameter, so that both
  modes and every batch size are covered; \<open>BATCH_SIZE\<close> is a count.
\<close>

record config =
  KEYPAIR_PATH :: string
  METADATA_FOLDER :: string
  NETWORK :: string
  ROYALTY_PERCENTAGE :: jsnum
  PRIORITY_FEE :: jsnum
  IS_SIMULATION :: bool
  BATCH_SIZE :: nat
  RPC_URL :: string

definition CONFIG :: config where
  "CONFIG = \<lparr>KEYPAIR_PATH = ''./keypair.json'', METADATA_FOLDER = ''./nfts'',
     NETWORK = ''mainnet-beta'', ROYALTY_PERCENTAGE = Fin 5, PRIORITY_FEE = Fin 50000,
     IS_SIMULATION = True, BATCH_SIZE = 3, RPC_URL = ''https://api.mainnet-beta.solana.com''\<rparr>"

text \<open>
  The value \<open>JSON.parse\<close> returns for a catalog file, as far as \<open>mintSingleNFT\<close> reads it:
  \<open>null\<close>, or a value with the properties \<open>name\<close>, \<open>description\<close>, \<open>imagePath\<close>,
  \<open>attributes\<close> and \<open>royaltyPercentage\<close>, each of which may be absent (\<open>None\<close> is
  \<open>undefined\<close>). A present property has the type the catalog format gives it.
\<close>

record nftConfig =
  name :: "string option"
  description :: "string option"
  imagePath :: "string option"
  attributes :: "(string \<times> string) list option"
  royaltyPercentage :: "jsnum option"

datatype nftData = JNull | JObject nftConfig

text \<open>The metadata document built by \<open>mintSingleNFT\<close>.\<close>

record metadata =
  md_name :: "string option"
  md_description :: "string option"
  md_image :: string
  md_attributes :: "(string \<times> string) list"
  md_files :: "(string \<times> string) list"
  md_category :: string

text \<open>The argument of \<open>turbo.uploadFile\<close>: the bytes, their number and the content type tag.\<close>

record upload_request =
  fileStream :: string
  fileSize :: nat
  contentType :: string

text \<open>
  What \<open>turbo.uploadFile\<close> resolves to: nothing (\<open>undefined\<close>), or an object whose \<open>id\<close>
  may be absent.
\<close>

datatype upload_response = NoResponse | Response "string option"

text \<open>The argument of \<open>create\<close> with the compute unit price added to the transaction.\<close>

record create_input =
  asset :: string
  asset_name :: "string option"
  uri :: string
  basisPoints :: jsnum
  creators :: "(string \<times> nat) list"
  ruleSet :: string
  microLamports :: jsnum

text \<open>The objects returned for one catalog file.\<close>

datatype outcome =
    Simulated "string option" string
  | Success "string option" string string
  | Failed string string

fun status :: "outcome \<Rightarrow> string" where
  "status (Simulated n a) = ''simulated''"
| "status (Success n a u) = ''success''"
| "status (Failed f m) = ''failed''"

section \<open>The outside world\<close>

text \<open>
  The storage network client, as it answers the calls made while one catalog file is
  processed. Every call may reject (\<open>Inl\<close>). \<open>getUploadCosts\<close> gives the \<open>winc\<close> of the
  first price, \<open>getBalance\<close> and \<open>getWincForToken\<close> their \<open>winc\<close>.
\<close>

record turbo =
  getUploadCosts :: "nat \<Rightarrow> error + jsnum"
  getBalance :: "error + jsnum"
  getWincForToken :: "jsnum \<Rightarrow> error + jsnum"
  topUpWithTokens :: "jsnum \<Rightarrow> error + unit"
  turbo_uploadFile :: "upload_request \<Rightarrow> error + upload_response"

text \<open>
  Everything else one item gets from outside: the suffixes
  \<open>Math.random().toString(36).substring(7)\<close> of its first and second call, the public
  key of the signer \<open>generateSigner\<close> makes, and the ledger's answer to \<open>sendAndConfirm\<close>.
\<close>

record services =
  storage :: turbo
  random_suffix :: "nat \<Rightarrow> string"
  generateSigner :: string
  sendAndConfirm :: "create_input \<Rightarrow> error + unit"

text \<open>
  The host: the file system calls of \<open>fs\<close> (a path that is \<open>undefined\<close> is \<open>None\<close>;
  \<open>statSync\<close> gives the \<open>size\<close>), \<open>JSON.parse\<close> on a catalog file and on the key
  file (there with the bytes \<open>Uint8Array.from\<close> makes of the result), \<open>JSON.stringify\<close>
  on the metadata document, and the construction of the signer identity (its public
  key) and of the storage client from the secret key, which throw on a key they do not
  accept.
\<close>

record host =
  statSync :: "string option \<Rightarrow> error + nat"
  readFileSync :: "string option \<Rightarrow> error + string"
  readdirSync :: "string \<Rightarrow> error + string list"
  writeFileSync :: "string \<Rightarrow> outcome list \<Rightarrow> error + unit"
  JSON_parse :: "string \<Rightarrow> error + nftData"
  JSON_parse_key :: "string \<Rightarrow> error + nat list"
  JSON_stringify :: "metadata \<Rightarrow> string"
  createKeypairFromSecretKey :: "nat list \<Rightarrow> error + string"
  TurboFactory_authenticated :: "nat list \<Rightarrow> error + unit"

text \<open>The network calls of the script, in the order one item makes them.\<close>

datatype event =
    GetUploadCosts nat
  | GetBalance
  | GetWincForToken jsnum
  | TopUpWithTokens jsnum
  | UploadFile upload_request
  | SendAndConfirm create_input

text \<open>The calls that upload.\<close>

fun is_upload :: "event \<Rightarrow> bool" where
  "is_upload (UploadFile r) = True"
| "is_upload e = False"

text \<open>
  An asynchronous computation: its result (\<open>Inl\<close> when it throws or rejects) and the
  network calls it has made.
\<close>

type_synonym 'a action = "(error + 'a) \<times> event list"

definition done_with :: "'a \<Rightarrow> 'a action" where
  "done_with v = (Inr v, [])"

definition throw :: "error \<Rightarrow> 'a action" where
  "throw e = (Inl e, [])"

text \<open>A call that makes no network request, such as one of \<open>fs\<close>.\<close>

definition local_call :: "error + 'a \<Rightarrow> 'a action" where
  "local_call r = (r, [])"

text \<open>\<open>await\<close> of a network call: the call is recorded, its answer is the result.\<close>

definition await :: "event \<Rightarrow> error + 'a \<Rightarrow> 'a action" where
  "await ev r = (r, [ev])"

text \<open>Sequencing: what follows a statement runs only when the statement did not throw.\<close>

definition and_then :: "'a action \<Rightarrow> ('a \<Rightarrow> 'b action) \<Rightarrow> 'b action" where
  "and_then m f = (case m of
       (Inl e, evs) \<Rightarrow> (Inl e, evs)
     | (Inr v, evs) \<Rightarrow> (case f v of (r, evs') \<Rightarrow> (r, evs @ evs')))"

section \<open>Helper functions\<close>

definition calculateSize :: "host \<Rightarrow> string option \<Rightarrow> error + nat" where
  "calculateSize h filePath = statSync h filePath"

text \<open>
  Reading \<open>upload.id\<close> into the template literal: a missing response throws a
  \<open>TypeError\<close>, a missing \<open>id\<close> prints as \<open>undefined\<close>.
\<close>

fun upload_id :: "upload_response \<Rightarrow> error + string" where
  "upload_id NoResponse = Inl (Error ''Cannot read properties of undefined (reading 'id')'')"
| "upload_id (Response None) = Inr ''undefined''"
| "upload_id (Response (Some i)) = Inr i"

definition uploadFile ::
  "config \<Rightarrow> host \<Rightarrow> services \<Rightarrow> string option \<Rightarrow> string \<Rightarrow> string action" where
  "uploadFile cfg h sv filePath ctype =
    (if IS_SIMULATION cfg
     then done_with (''https://arweave.net/simulation_id_'' @ random_suffix sv 0)
     else
       and_then (local_call (calculateSize h filePath)) (\<lambda>fileSize.
       and_then (local_call (readFileSync h filePath)) (\<lambda>fileBuffer.
       and_then (await (GetUploadCosts fileSize) (getUploadCosts (storage sv) fileSize))
         (\<lambda>uploadPrice.
       and_then (await GetBalance (getBalance (storage sv))) (\<lambda>currentBalance.
       and_then
         (if js_gt uploadPrice currentBalance
          then
            (let requiredWinc = js_sub uploadPrice currentBalance in
             and_then
               (await (GetWincForToken (Fin 1000000000))
                  (getWincForToken (storage sv) (Fin 1000000000)))
               (\<lambda>wincForOneSol.
                  let topUpAmount =
                    Math_ceil (js_mul (js_div requiredWinc wincForOneSol) (Fin 1000000000))
                  in await (TopUpWithTokens topUpAmount)
                       (topUpWithTokens (storage sv) topUpAmount)))
          else done_with ())
         (\<lambda>_.
       (let request = \<lparr>fileStream = fileBuffer, fileSize = fileSize, contentType = ctype\<rparr> in
        and_then (await (UploadFile request) (turbo_uploadFile (storage sv) request))
          (\<lambda>upload.
        and_then (local_call (upload_id upload)) (\<lambda>i.
        done_with (''https://arweave.net/'' @ i))))))))))"

text \<open>\<open>nftConfig.royaltyPercentage || CONFIG.ROYALTY_PERCENTAGE\<close>, times 100.\<close>

definition royalty_or_default :: "config \<Rightarrow> nftConfig \<Rightarrow> jsnum" where
  "royalty_or_default cfg c = (case royaltyPercentage c of
       None \<Rightarrow> ROYALTY_PERCENTAGE cfg
     | Some r \<Rightarrow> if truthy r then r else ROYALTY_PERCENTAGE cfg)"

definition royalty_basisPoints :: "config \<Rightarrow> nftConfig \<Rightarrow> jsnum" where
  "royalty_basisPoints cfg c = js_mul (royalty_or_default cfg c) (Fin 100)"

text \<open>
  \<open>mintSingleNFT\<close>. \<open>identity\<close> is \<open>umi.identity.publicKey\<close>. Reading a property of
  \<open>null\<close> throws a \<open>TypeError\<close>.
\<close>

definition mintSingleNFT_object ::
  "config \<Rightarrow> host \<Rightarrow> services \<Rightarrow> string \<Rightarrow> nftConfig \<Rightarrow> outcome action" where
  "mintSingleNFT_object cfg h sv identity c =
    and_then (uploadFile cfg h sv (imagePath c) ''image/jpeg'') (\<lambda>imageUrl.
    (let md = \<lparr>md_name = name c, md_description = description c, md_image = imageUrl,
               md_attributes = (case attributes c of None \<Rightarrow> [] | Some a \<Rightarrow> a),
               md_files = [(imageUrl, ''image/jpeg'')], md_category = ''image''\<rparr>;
         metadataBuffer = JSON_stringify h md
     in
     and_then
       (if IS_SIMULATION cfg
        then done_with (''https://arweave.net/sim_metadata_'' @ random_suffix sv 1)
        else
          (let request = \<lparr>fileStream = metadataBuffer, fileSize = length metadataBuffer,
                           contentType = ''application/json''\<rparr> in
           and_then (await (UploadFile request) (turbo_uploadFile (storage sv) request))
             (\<lambda>metaUpload.
           and_then (local_call (upload_id metaUpload)) (\<lambda>i.
           done_with (''https://arweave.net/'' @ i)))))
       (\<lambda>metadataUri.
     (let assetSigner = generateSigner sv in
      if IS_SIMULATION cfg
      then done_with (Simulated (name c) assetSigner)
      else
        (let tx = \<lparr>asset = assetSigner, asset_name = name c, uri = metadataUri,
                    basisPoints = royalty_basisPoints cfg c,
                    creators = [(identity, 100)], ruleSet = ''None'',
                    microLamports = PRIORITY_FEE cfg\<rparr> in
         and_then (await (SendAndConfirm tx) (sendAndConfirm sv tx)) (\<lambda>_.
         done_with (Success (name c) assetSigner metadataUri)))))))"

fun mintSingleNFT ::
  "config \<Rightarrow> host \<Rightarrow> services \<Rightarrow> string \<Rightarrow> nftData \<Rightarrow> outcome action" where
  "mintSingleNFT cfg h sv identity JNull =
     throw (Error ''Cannot read properties of null (reading 'imagePath')'')"
| "mintSingleNFT cfg h sv identity (JObject c) = mintSingleNFT_object cfg h sv identity c"

section \<open>Main batch process\<close>

text \<open>\<open>f.endsWith(suffix)\<close>.\<close>

definition endsWith :: "string \<Rightarrow> string \<Rightarrow> bool" where
  "endsWith f suffix =
     (length suffix \<le> length f \<and> drop (length f - length suffix) f = suffix)"

text \<open>
  \<open>path.join(folder, file)\<close>; the host resolves the path, so its normal form is left to
  the host.
\<close>

definition path_join :: "string \<Rightarrow> string \<Rightarrow> string" where
  "path_join folder file = folder @ ''/'' @ file"

text \<open>
  The function mapped over a chunk. Its \<open>try\<close> block reads and parses the catalog file
  and mints it.
\<close>

definition load_and_mint ::
  "config \<Rightarrow> host \<Rightarrow> string \<Rightarrow> services \<Rightarrow> string \<Rightarrow> outcome action" where
  "load_and_mint cfg h identity sv file =
    and_then (local_call (readFileSync h (Some (path_join (METADATA_FOLDER cfg) file))))
      (\<lambda>content.
    and_then (local_call (JSON_parse h content)) (\<lambda>nftData.
    mintSingleNFT cfg h sv identity nftData))"

text \<open>
  The \<open>catch\<close> block turns whatever was thrown into the object
  \<open>{ file, status: 'failed', error: err.message }\<close>. The result is the object the
  promise of the item resolves to, with the network calls the item made.
\<close>

definition mint_file ::
  "config \<Rightarrow> host \<Rightarrow> string \<Rightarrow> services \<Rightarrow> string \<Rightarrow> outcome \<times> event list" where
  "mint_file cfg h identity sv file =
    (case load_and_mint cfg h identity sv file of
       (Inr res, evs) \<Rightarrow> (res, evs)
     | (Inl err, evs) \<Rightarrow> (Failed file (message err), evs))"

text \<open>
  The \<open>for\<close> loop over the chunks. \<open>mint\<close> is the function mapped over a chunk;
  \<open>Promise.all\<close> keeps the order of the chunk. The state is the index \<open>i\<close>, the
  \<open>results\<close> pushed so far and the batch numbers logged so far. With a batch size of 0
  the index never moves: the loop does not return, which is the value \<open>None\<close> (the batch
  number logged there is then never part of a result).
\<close>

partial_function (option) chunk_loop ::
  "nat \<Rightarrow> (string \<Rightarrow> 'a) \<Rightarrow> string list \<Rightarrow> nat \<Rightarrow> 'a list \<Rightarrow> nat list
     \<Rightarrow> ('a list \<times> nat list) option" where
  "chunk_loop bsize mint configFiles i results batches =
    (if i < length configFiles
     then
       (let chunk = take bsize (drop i configFiles);
            chunkResults = map mint chunk
        in chunk_loop bsize mint configFiles (i + bsize) (results @ chunkResults)
             (batches @ [i div bsize + 1]))
     else Some (results, batches))"

text \<open>Statements that throw without a network call, in sequence.\<close>

definition try_then :: "error + 'a \<Rightarrow> ('a \<Rightarrow> error + 'b) \<Rightarrow> error + 'b" where
  "try_then r f = (case r of Inl e \<Rightarrow> Inl e | Inr v \<Rightarrow> f v)"

text \<open>
  The statements of \<open>batchMintNFTs\<close> before the loop: the key file is read and parsed,
  the signer identity and the storage client are made from it, and the catalog folder
  is listed, filtered and sorted (names are compared character by character, which is
  the order of \<open>sort()\<close> on ASCII names). The result is \<open>umi.identity.publicKey\<close> and
  \<open>configFiles\<close>.
\<close>

definition startup :: "config \<Rightarrow> host \<Rightarrow> error + (string \<times> string list)" where
  "startup cfg h =
    try_then (readFileSync h (Some (KEYPAIR_PATH cfg))) (\<lambda>content.
    try_then (JSON_parse_key h content) (\<lambda>secretKey.
    try_then (createKeypairFromSecretKey h secretKey) (\<lambda>identity.
    try_then (TurboFactory_authenticated h secretKey) (\<lambda>_.
    try_then (readdirSync h (METADATA_FOLDER cfg)) (\<lambda>names.
    Inr (identity, sort (filter (\<lambda>f. endsWith f ''.json'') names)))))))"

text \<open>
  What a run of \<open>batchMintNFTs\<close> leaves behind: how its promise settled, the array
  written to \<open>batch-mint-results.json\<close> (if it was written), the batch numbers logged,
  and the network calls of each item, in the order of \<open>configFiles\<close>.
\<close>

record run =
  settled :: "error + unit"
  report :: "outcome list option"
  batches_logged :: "nat list"
  calls :: "event list list"

text \<open>
  \<open>net file\<close> is what the outside world answers while \<open>file\<close> is processed. The items
  of a chunk run concurrently, so the calls of different items interleave; each item's
  own calls keep their order, and its result depends on the answers it gets only.
\<close>

definition batchMintNFTs :: "config \<Rightarrow> host \<Rightarrow> (string \<Rightarrow> services) \<Rightarrow> run option" where
  "batchMintNFTs cfg h net =
    (case startup cfg h of
       Inl e \<Rightarrow> Some \<lparr>settled = Inl e, report = None, batches_logged = [], calls = []\<rparr>
     | Inr (identity, configFiles) \<Rightarrow>
        (case chunk_loop (BATCH_SIZE cfg) (\<lambda>file. mint_file cfg h identity (net file) file)
                configFiles 0 [] [] of
           None \<Rightarrow> None
         | Some (results, batches) \<Rightarrow>
            (case writeFileSync h ''batch-mint-results.json'' (map fst results) of
               Inl e \<Rightarrow> Some \<lparr>settled = Inl e, report = None, batches_logged = batches,
                              calls = map snd results\<rparr>
             | Inr _ \<Rightarrow> Some \<lparr>settled = Inr (), report = Some (map fst results),
                              batches_logged = batches, calls = map snd results\<rparr>)))"

text \<open>
  \<open>promise.catch(console.error)\<close>: a rejection is handled by logging it, and the
  resulting promise is fulfilled either way. The second component is what was logged.
\<close>

definition catch_console_error :: "error + unit \<Rightarrow> (error + unit) \<times> error list" where
  "catch_console_error p = (case p of Inl e \<Rightarrow> (Inr (), [e]) | Inr v \<Rightarrow> (Inr v, []))"

text \<open>
  The exit code of the process once nothing is left to run: 1 when a rejection was left
  unhandled, 0 otherwise (the script never sets an exit code itself).
\<close>

definition exit_code :: "error + unit \<Rightarrow> nat" where
  "exit_code p = (case p of Inl e \<Rightarrow> 1 | Inr v \<Rightarrow> 0)"

text \<open>The last line of the script: \<open>batchMintNFTs().catch(console.error)\<close>.\<close>

definition main :: "config \<Rightarrow> host \<Rightarrow> (string \<Rightarrow> services) \<Rightarrow> nat option" where
  "main cfg h net =
    (case batchMintNFTs cfg h net of
       None \<Rightarrow> None
     | Some r \<Rightarrow> Some (exit_code (fst (catch_console_error (settled r)))))"

section \<open>Example worlds\<close>

text \<open>
  Concrete hosts and networks on which the theorems below are run. \<open>ENOENT\<close> is the
  error the file system raises for a path that does not exist; \<open>LIVE\<close> is \<open>CONFIG\<close>
  with the simulation flag set to false.
\<close>

definition ENOENT :: "string \<Rightarrow> string \<Rightarrow> error" where
  "ENOENT syscall path =
     Error (''ENOENT: no such file or directory, '' @ syscall @ '' '' @ [CHR 0x27] @ path @ [CHR 0x27])"

definition LIVE :: config where
  "LIVE = CONFIG\<lparr>IS_SIMULATION := False\<rparr>"

definition demo_entry :: nftConfig where
  "demo_entry = \<lparr>name = Some ''Quantum 1'', description = Some ''The first one'',
     imagePath = Some ''./images/1.jpg'', attributes = None, royaltyPercentage = Some (Fin 7)\<rparr>"

text \<open>
  A host: what reading the key file and listing the catalog folder give, the catalog
  files whose text is cut off (\<open>broken\<close>), the catalog files whose entry names an image
  that does not exist (\<open>lost\<close>), and the size of every image that exists.
\<close>

definition lost_entry :: nftConfig where
  "lost_entry = demo_entry\<lparr>imagePath := Some ''./images/missing.jpg''\<rparr>"

definition demo_host ::
  "(error + string) \<Rightarrow> (error + string list) \<Rightarrow> string list \<Rightarrow> string list \<Rightarrow> nat \<Rightarrow> host" where
  "demo_host keyfile listing broken lost image_size =
    \<lparr>statSync = (\<lambda>p. if p = Some ''./images/missing.jpg''
                     then Inl (ENOENT ''stat'' ''./images/missing.jpg'') else Inr image_size),
     readFileSync = (\<lambda>p. if p = Some ''./keypair.json'' then keyfile
                         else if p \<in> Some ` set broken then Inr ''{''
                         else if p \<in> Some ` set lost then Inr ''{missing}''
                         else Inr ''{}''),
     readdirSync = (\<lambda>d. listing),
     writeFileSync = (\<lambda>p d. Inr ()),
     JSON_parse = (\<lambda>s. if s = ''{'' then Inl (Error ''Unexpected end of JSON input'')
                       else if s = ''{missing}'' then Inr (JObject lost_entry)
                       else Inr (JObject demo_entry)),
     JSON_parse_key = (\<lambda>s. Inr [1, 2, 3]),
     JSON_stringify = (\<lambda>m. ''{}''),
     createKeypairFromSecretKey = (\<lambda>k. Inr ''operator''),
     TurboFactory_authenticated = (\<lambda>k. Inr ())\<rparr>"

definition demo_services ::
  "jsnum \<Rightarrow> jsnum \<Rightarrow> jsnum \<Rightarrow> (error + upload_response) \<Rightarrow> services" where
  "demo_services price balance rate uploaded =
    \<lparr>storage = \<lparr>getUploadCosts = (\<lambda>n. Inr price), getBalance = Inr balance,
                 getWincForToken = (\<lambda>t. Inr rate), topUpWithTokens = (\<lambda>t. Inr ()),
                 turbo_uploadFile = (\<lambda>r. uploaded)\<rparr>,
     random_suffix = (\<lambda>k. ''x7k2p''),
     generateSigner = ''asset'',
     sendAndConfirm = (\<lambda>tx. Inr ())\<rparr>"

definition demo_net ::
  "jsnum \<Rightarrow> jsnum \<Rightarrow> jsnum \<Rightarrow> (error + upload_response) \<Rightarrow> string \<Rightarrow> services" where
  "demo_net price balance rate uploaded file = demo_services price balance rate uploaded"

definition seven_files :: "string list" where
  "seven_files = [''7.json'', ''1.json'', ''2.json'', ''notes.txt'', ''3.json'', ''4.json'',
     ''5.json'', ''6.json'']"

definition three_files :: "string list" where
  "three_files = [''3.json'', ''1.json'', ''2.json'']"

text \<open>An entry that asks for a royalty of zero.\<close>

definition zero_entry :: nftConfig where
  "zero_entry = demo_entry\<lparr>royaltyPercentage := Some (Fin 0)\<rparr>"

text \<open>The transaction the demo world creates for an entry, in live mode.\<close>

definition demo_tx :: "nftConfig \<Rightarrow> create_input" where
  "demo_tx c = \<lparr>asset = ''asset'', asset_name = Some ''Quantum 1'',
     uri = ''https://arweave.net/tx1'', basisPoints = royalty_basisPoints LIVE c,
     creators = [(''operator'', 100)], ruleSet = ''None'', microLamports = Fin 50000\<rparr>"






section \<open>Sequencing rules\<close>

text \<open>How \<open>and_then\<close> computes, for the proofs below.\<close>

lemma and_then_done_with: "and_then (done_with v) f = f v"
  by (simp add: and_then_def done_with_def split: prod.splits)

lemma and_then_throw: "and_then (throw e) f = throw e"
  by (simp add: and_then_def throw_def)

lemma and_then_local_call:
  "and_then (local_call r) f = (case r of Inl e \<Rightarrow> (Inl e, []) | Inr v \<Rightarrow> f v)"
  by (simp add: and_then_def local_call_def split: prod.splits sum.splits)

lemma and_then_await:
  "and_then (await ev r) f =
     (case r of Inl e \<Rightarrow> (Inl e, [ev]) | Inr v \<Rightarrow> (fst (f v), ev # snd (f v)))"
  by (simp add: and_then_def await_def split: prod.splits sum.splits)

lemma and_then_Inl: "and_then (Inl e, evs) f = (Inl e, evs)"
  by (simp add: and_then_def)

lemma and_then_Inr: "and_then (Inr v, evs) f = (fst (f v), evs @ snd (f v))"
  by (simp add: and_then_def split: prod.splits)

lemmas action_simps = and_then_done_with and_then_throw and_then_local_call and_then_await
  and_then_Inl and_then_Inr

lemmas demo_defs = CONFIG_def LIVE_def demo_host_def demo_services_def demo_net_def demo_entry_def
  lost_entry_def

lemma and_then_pair:
  "and_then (r, evs) f =
     (case r of Inl e \<Rightarrow> (Inl e, evs) | Inr v \<Rightarrow> (fst (f v), evs @ snd (f v)))"
  by (simp add: and_then_def split: sum.splits prod.splits)

lemmas action_defs = done_with_def throw_def local_call_def await_def and_then_pair

lemma and_then_failed: "fst m = Inl e \<Longrightarrow> and_then m f = (Inl e, snd m)"
  by (cases m) (simp add: and_then_pair)

section \<open>Rounding to binary64\<close>

text \<open>
  \<open>ilog2\<close> finds the binade of a positive rational (\<open>ilog2_bounds\<close>, \<open>ilog2_eq\<close>).
  \<open>fl_eq\<close> evaluates \<open>fl\<close> from the binade and the rounded significand, and
  \<open>fl_of_int\<close> says that an integer below \<open>2 ^ 53\<close> in absolute value is not rounded.
\<close>

lemma two_powi_pos: "(0::rat) < 2 powi e"
  by (simp add: zero_less_power_int)

lemma two_powi_less_iff: "(2::rat) powi m < 2 powi n \<longleftrightarrow> m < n"
proof
  assume "(2::rat) powi m < 2 powi n"
  show "m < n"
  proof (rule ccontr)
    assume "\<not> m < n"
    then have "n \<le> m" by simp
    then have "(2::rat) powi n \<le> 2 powi m"
      by (rule power_int_increasing) simp
    with \<open>(2::rat) powi m < 2 powi n\<close> show False by simp
  qed
next
  assume "m < n"
  then show "(2::rat) powi m < 2 powi n"
    by (rule power_int_strict_increasing) simp
qed

lemma two_powi_le_iff: "(2::rat) powi m \<le> 2 powi n \<longleftrightarrow> m \<le> n"
  using two_powi_less_iff [of n m] by (simp add: not_less [symmetric])

lemma two_powi_diff: "(2::rat) powi (m - n) = 2 powi m / 2 powi n"
  by (rule power_int_diff) simp

lemma ilog2_bounds:
  assumes "0 < x"
  shows "2 powi ilog2 x \<le> x \<and> x < 2 powi (ilog2 x + 1)"
proof -
  obtain p q where pq: "quotient_of x = (p, q)"
    by (cases "quotient_of x")
  have q0: "0 < q"
    using pq by (rule quotient_of_denom_pos)
  have x: "x = of_int p / of_int q"
    using pq by (rule quotient_of_div)
  have p0: "0 < p"
    using assms q0 unfolding x by (simp add: zero_less_divide_iff)
  define a where "a = floorlog 2 (nat p)"
  define b where "b = floorlog 2 (nat q)"
  define k where "k = int a - int b"
  have a1: "0 < a" and b1: "0 < b"
    unfolding a_def b_def using p0 q0 by (simp_all add: floorlog_def)
  have pa: "2 ^ (a - 1) \<le> nat p \<and> nat p < 2 ^ a"
    unfolding a_def using p0 by (intro floorlog_bounds) simp_all
  have qb: "2 ^ (b - 1) \<le> nat q \<and> nat q < 2 ^ b"
    unfolding b_def using q0 by (intro floorlog_bounds) simp_all
  have pu: "(of_int p :: rat) < 2 ^ a"
  proof -
    have "int (nat p) < int (2 ^ a)" using pa by (simp only: of_nat_less_iff)
    then have "p < 2 ^ a" using p0 by simp
    then have "(of_int p :: rat) < of_int (2 ^ a)" by (simp only: of_int_less_iff)
    then show ?thesis by simp
  qed
  have pl: "(2 ^ (a - 1) :: rat) \<le> of_int p"
  proof -
    have "int (2 ^ (a - 1)) \<le> int (nat p)" using pa by (simp only: of_nat_le_iff)
    then have "2 ^ (a - 1) \<le> p" using p0 by simp
    then have "(of_int (2 ^ (a - 1)) :: rat) \<le> of_int p" by (simp only: of_int_le_iff)
    then show ?thesis by simp
  qed
  have qu: "(of_int q :: rat) < 2 ^ b"
  proof -
    have "int (nat q) < int (2 ^ b)" using qb by (simp only: of_nat_less_iff)
    then have "q < 2 ^ b" using q0 by simp
    then have "(of_int q :: rat) < of_int (2 ^ b)" by (simp only: of_int_less_iff)
    then show ?thesis by simp
  qed
  have ql: "(2 ^ (b - 1) :: rat) \<le> of_int q"
  proof -
    have "int (2 ^ (b - 1)) \<le> int (nat q)" using qb by (simp only: of_nat_le_iff)
    then have "2 ^ (b - 1) \<le> q" using q0 by simp
    then have "(of_int (2 ^ (b - 1)) :: rat) \<le> of_int q" by (simp only: of_int_le_iff)
    then show ?thesis by simp
  qed
  have qr: "(0::rat) < of_int q" and pr: "(0::rat) < of_int p"
    using q0 p0 by simp_all
  have ea: "(2::rat) ^ a = 2 powi (int a)" and eb: "(2::rat) ^ b = 2 powi (int b)"
    by simp_all
  have ea1: "(2::rat) ^ (a - 1) = 2 powi (int a - 1)"
    using a1 by (metis of_nat_1 of_nat_diff Suc_leI One_nat_def power_int_of_nat)
  have eb1: "(2::rat) ^ (b - 1) = 2 powi (int b - 1)"
    using b1 by (metis of_nat_1 of_nat_diff Suc_leI One_nat_def power_int_of_nat)
  have upper: "x < 2 powi (k + 1)"
  proof -
    have "x * 2 powi (int b - 1) \<le> x * of_int q"
      using ql assms unfolding eb1 by (simp add: mult_left_mono)
    also have "\<dots> = of_int p"
      unfolding x using qr by simp
    also have "\<dots> < 2 powi (int a)"
      using pu unfolding ea .
    finally have "x < 2 powi (int a) / 2 powi (int b - 1)"
      using two_powi_pos [of "int b - 1"] by (simp add: pos_less_divide_eq)
    then show ?thesis
      unfolding k_def two_powi_diff [symmetric] by (simp add: algebra_simps)
  qed
  have lower: "2 powi (k - 1) < x"
  proof -
    have "(2::rat) powi (int a - 1) \<le> of_int p"
      using pl unfolding ea1 .
    also have "\<dots> = x * of_int q"
      unfolding x using qr by simp
    also have "\<dots> < x * 2 powi (int b)"
      using qu assms unfolding eb by (simp add: mult_strict_left_mono)
    finally have "2 powi (int a - 1) / 2 powi (int b) < x"
      using two_powi_pos [of "int b"] by (simp add: pos_divide_less_eq)
    then show ?thesis
      unfolding k_def two_powi_diff [symmetric] by (simp add: algebra_simps)
  qed
  have il: "ilog2 x = (if 2 powi k \<le> x then k else k - 1)"
    unfolding ilog2_def pq k_def a_def b_def by (simp add: Let_def)
  show ?thesis
  proof (cases "2 powi k \<le> x")
    case True
    with upper il show ?thesis by simp
  next
    case False
    with lower il show ?thesis by simp
  qed
qed

lemma ilog2_eq:
  assumes "0 < x" and "2 powi e \<le> x" and "x < 2 powi (e + 1)"
  shows "ilog2 x = e"
proof -
  from ilog2_bounds [OF assms(1)]
  have l: "2 powi ilog2 x \<le> x" and u: "x < 2 powi (ilog2 x + 1)"
    by simp_all
  have "(2::rat) powi e < 2 powi (ilog2 x + 1)"
    using assms(2) u by (rule le_less_trans)
  then have 1: "e < ilog2 x + 1"
    by (simp only: two_powi_less_iff)
  have "(2::rat) powi ilog2 x < 2 powi (e + 1)"
    using l assms(3) by (rule le_less_trans)
  then have 2: "ilog2 x < e + 1"
    by (simp only: two_powi_less_iff)
  from 1 2 show ?thesis by simp
qed

lemma round_half_even_of_int: "round_half_even (of_int m) = m"
  by (simp add: round_half_even_def)

lemma round_half_even_nearest:
  assumes "of_int m - 1 / 2 < r" and "r < of_int m + 1 / 2"
  shows "round_half_even r = m"
proof -
  have lo: "m - 1 \<le> \<lfloor>r\<rfloor>"
    using assms(1) by (simp add: le_floor_iff)
  have hi: "\<lfloor>r\<rfloor> \<le> m"
    using assms(2) by (simp add: floor_le_iff)
  show ?thesis
  proof (cases "\<lfloor>r\<rfloor> = m")
    case True
    with assms(2) show ?thesis
      by (simp add: round_half_even_def Let_def)
  next
    case False
    with lo hi have f: "\<lfloor>r\<rfloor> = m - 1" by simp
    have "1 / 2 < r - of_int (m - 1)"
      using assms(1) by simp
    then show ?thesis
      unfolding round_half_even_def Let_def f by simp
  qed
qed

lemma fl_unfold:
  assumes "big = (2::rat) powi 1024"
  shows "fl x = (if x = 0 then Fin 0 else
     let e = max (ilog2 \<bar>x\<bar>) (- 1022) - 52;
         y = of_int (round_half_even (\<bar>x\<bar> / 2 powi e)) * 2 powi e
     in if big \<le> y then (if 0 < x then PInf else NInf) else Fin (sgn x * y))"
  unfolding fl_def assms ..

lemma fl_eq:
  assumes "0 < x" and "2 powi e \<le> x" and "x < 2 powi (e + 1)" and "- 1022 \<le> e"
    and "round_half_even (x / 2 powi (e - 52)) = m"
    and "of_int m * 2 powi (e - 52) < (2::rat) powi 1024"
  shows "fl x = Fin (of_int m * 2 powi (e - 52))"
proof -
  define big where "big = (2::rat) powi 1024"
  have i: "ilog2 x = e"
    using assms(1,2,3) by (simp add: ilog2_eq)
  have a: "\<bar>x\<bar> = x" and s: "sgn x = 1" and n: "x \<noteq> 0"
    using assms(1) by simp_all
  have m: "max e (- 1022) = e"
    using assms(4) by simp
  have b: "\<not> big \<le> of_int m * 2 powi (e - 52)"
    using assms(6) unfolding big_def by (simp only: not_le)
  show ?thesis
    unfolding fl_unfold [OF big_def] a i m Let_def assms(5)
    using n b s by (simp only: if_False mult_1)
qed

lemma fl_of_int:
  assumes "\<bar>n\<bar> < 2 ^ 53"
  shows "fl (of_int n) = Fin (of_int n)"
proof (cases "n = 0")
  case True
  then show ?thesis by (simp add: fl_def)
next
  case False
  define x :: rat where "x = of_int \<bar>n\<bar>"
  have x1: "1 \<le> x"
    unfolding x_def using False by (simp add: Ints_nonzero_abs_ge1)
  have x0: "0 < x"
    using x1 by simp
  have xu: "x < 2 powi 53"
  proof -
    have "(of_int \<bar>n\<bar> :: rat) < of_int (2 ^ 53)"
      using assms by (simp only: of_int_less_iff)
    then show ?thesis unfolding x_def by simp
  qed
  define L where "L = ilog2 x"
  from ilog2_bounds [OF x0]
  have l: "2 powi L \<le> x" and u: "x < 2 powi (L + 1)"
    unfolding L_def by simp_all
  have "(2::rat) powi 0 < 2 powi (L + 1)"
    using x1 u by simp
  then have L0: "0 \<le> L"
    by (simp only: two_powi_less_iff)
  have "(2::rat) powi L < 2 powi 53"
    using l xu by (rule le_less_trans)
  then have L52: "L \<le> 52"
    by (simp only: two_powi_less_iff)
  have mx: "max L (- 1022) = L"
    using L0 by simp
  define k where "k = nat (52 - L)"
  have e: "L - 52 = - int k"
    unfolding k_def using L52 by simp
  have p: "(2::rat) powi (L - 52) = 1 / 2 ^ k"
    unfolding e by (simp add: power_int_minus field_simps)
  have q: "x / 2 powi (L - 52) = of_int (\<bar>n\<bar> * 2 ^ k)"
    unfolding p x_def by simp
  have r: "round_half_even (x / 2 powi (L - 52)) = \<bar>n\<bar> * 2 ^ k"
    unfolding q by (rule round_half_even_of_int)
  have y: "of_int (\<bar>n\<bar> * 2 ^ k) * (2::rat) powi (L - 52) = x"
    unfolding p x_def by simp
  define big where "big = (2::rat) powi 1024"
  have big: "\<not> big \<le> x"
  proof -
    have "(2::rat) powi 53 \<le> 2 powi 1024"
      by (simp only: two_powi_le_iff)
    with xu have "x < 2 powi 1024" by (rule less_le_trans)
    then show ?thesis unfolding big_def by (simp only: not_le)
  qed
  have ax: "\<bar>of_int n :: rat\<bar> = x"
    unfolding x_def by simp
  have nz: "(of_int n :: rat) \<noteq> 0"
    using False by simp
  have sg: "sgn (of_int n :: rat) * x = of_int n"
    unfolding x_def by (simp add: sgn_if)
  show ?thesis
    unfolding fl_unfold [OF big_def] ax L_def [symmetric] mx Let_def r y
    using nz big sg by (simp only: if_False)
qed

section \<open>The chunk loop returns\<close>

text \<open>
  With a positive batch size the loop returns, having mapped \<open>mint\<close> over every catalog
  file in order and logged one batch number for every chunk (\<open>chunk_loop_returns\<close>);
  with a batch size of 0 and a catalog that is not empty it never returns
  (\<open>chunk_loop_never_returns\<close>).
\<close>

lemma div_add_self_Suc:
  fixes b k :: nat
  shows "0 < b \<Longrightarrow> (k + b) div b = Suc (k div b)"
  by simp

lemma ceil_div_step:
  fixes b m :: nat
  assumes "0 < b" "0 < m"
  shows "(m + b - 1) div b = Suc ((m - b + b - 1) div b)"
proof (cases "b \<le> m")
  case True
  define k where "k = m - b + b - 1"
  have "m + b - 1 = k + b"
    unfolding k_def using True assms by arith
  then show ?thesis
    unfolding k_def [symmetric] using div_add_self_Suc [OF assms(1), of k] by (simp only:)
next
  case False
  define k where "k = m - b + b - 1"
  have "k < b" unfolding k_def using False assms by arith
  then have r: "k div b = 0" by (rule div_less)
  have e: "m + b - 1 = (m - 1) + b" using assms(2) by arith
  have "m - 1 < b" using False by arith
  then have "(m - 1) div b = 0" by (rule div_less)
  then have "(m + b - 1) div b = Suc 0"
    unfolding e using div_add_self_Suc [OF assms(1), of "m - 1"] by (simp only:)
  with r show ?thesis unfolding k_def by (simp only:)
qed

lemma map_upt_Suc_shift: "map f [0..<Suc c] = f 0 # map (\<lambda>k. f (Suc k)) [0..<c]"
proof -
  have "[0..<Suc c] = 0 # map Suc [0..<c]"
    by (simp only: map_Suc_upt upt_conv_Cons [OF zero_less_Suc])
  then show ?thesis by (simp add: comp_def)
qed

lemma chunk_loop_returns:
  assumes "0 < b"
  shows "chunk_loop b mint files i results batches =
    Some (results @ map mint (drop i files),
          batches @ map (\<lambda>k. i div b + 1 + k) [0..<(length files - i + b - 1) div b])"
  using assms
proof (induction "length files - i" arbitrary: i results batches rule: less_induct)
  case less
  define c where "c = (length files - i + b - 1) div b"
  show ?case
  proof (cases "i < length files")
    case False
    then have "length files - i + b - 1 < b"
      using less.prems by arith
    then have "c = 0"
      unfolding c_def by (rule div_less)
    with False show ?thesis
      unfolding c_def [symmetric] by (subst chunk_loop.simps) simp
  next
    case True
    define c' where "c' = (length files - (i + b) + b - 1) div b"
    have step: "chunk_loop b mint files i results batches =
        chunk_loop b mint files (i + b) (results @ map mint (take b (drop i files)))
          (batches @ [i div b + 1])"
      using True by (subst chunk_loop.simps) (simp add: Let_def)
    have dec: "length files - (i + b) < length files - i"
      using True less.prems by simp
    have IH: "chunk_loop b mint files (i + b) (results @ map mint (take b (drop i files)))
          (batches @ [i div b + 1]) =
        Some ((results @ map mint (take b (drop i files))) @ map mint (drop (i + b) files),
          (batches @ [i div b + 1]) @ map (\<lambda>k. (i + b) div b + 1 + k) [0..<c'])"
      unfolding c'_def by (rule less.hyps [OF dec less.prems])
    have d: "take b (drop i files) @ drop (i + b) files = drop i files"
      by (metis add.commute append_take_drop_id drop_drop)
    have m: "(results @ map mint (take b (drop i files))) @ map mint (drop (i + b) files)
        = results @ map mint (drop i files)"
      using d by (metis append_assoc map_append)
    have n: "c = Suc c'"
    proof -
      have "0 < length files - i" using True by simp
      from ceil_div_step [OF less.prems this] show ?thesis
        unfolding c_def c'_def by (simp only: diff_diff_left)
    qed
    have q: "(i + b) div b = Suc (i div b)"
      using less.prems by (rule div_add_self_Suc)
    have l: "(batches @ [i div b + 1]) @ map (\<lambda>k. (i + b) div b + 1 + k) [0..<c']
        = batches @ map (\<lambda>k. i div b + 1 + k) [0..<c]"
      unfolding n q map_upt_Suc_shift by simp
    show ?thesis
      unfolding c_def [symmetric] step IH m l ..
  qed
qed

lemma batchMintNFTs_started:
  assumes "0 < BATCH_SIZE cfg" and "startup cfg h = Inr (identity, configFiles)"
  shows "batchMintNFTs cfg h net =
    (case writeFileSync h ''batch-mint-results.json''
            (map (\<lambda>file. fst (mint_file cfg h identity (net file) file)) configFiles) of
       Inl e \<Rightarrow> Some \<lparr>settled = Inl e, report = None,
           batches_logged = map Suc [0..<(length configFiles + BATCH_SIZE cfg - 1) div BATCH_SIZE cfg],
           calls = map (\<lambda>file. snd (mint_file cfg h identity (net file) file)) configFiles\<rparr>
     | Inr _ \<Rightarrow> Some \<lparr>settled = Inr (),
           report = Some (map (\<lambda>file. fst (mint_file cfg h identity (net file) file)) configFiles),
           batches_logged = map Suc [0..<(length configFiles + BATCH_SIZE cfg - 1) div BATCH_SIZE cfg],
           calls = map (\<lambda>file. snd (mint_file cfg h identity (net file) file)) configFiles\<rparr>)"
  unfolding batchMintNFTs_def assms(2)
  by (simp add: chunk_loop_returns [OF assms(1)] Let_def comp_def split: sum.splits)

lemma batchMintNFTs_written:
  assumes "0 < BATCH_SIZE cfg" and "startup cfg h = Inr (identity, configFiles)"
    and "writeFileSync h ''batch-mint-results.json''
           (map (\<lambda>file. fst (mint_file cfg h identity (net file) file)) configFiles) = Inr ()"
  shows "batchMintNFTs cfg h net =
    Some \<lparr>settled = Inr (),
       report = Some (map (\<lambda>file. fst (mint_file cfg h identity (net file) file)) configFiles),
       batches_logged = map Suc [0..<(length configFiles + BATCH_SIZE cfg - 1) div BATCH_SIZE cfg],
       calls = map (\<lambda>file. snd (mint_file cfg h identity (net file) file)) configFiles\<rparr>"
  unfolding batchMintNFTs_started [OF assms(1,2)] assms(3) by simp

lemma batchMintNFTs_not_started:
  assumes "startup cfg h = Inl e"
  shows "batchMintNFTs cfg h net =
    Some \<lparr>settled = Inl e, report = None, batches_logged = [], calls = []\<rparr>"
  unfolding batchMintNFTs_def assms by simp

lemma ceiling_div_nat:
  fixes n b :: nat
  assumes "0 < b"
  shows "nat \<lceil>(of_nat n :: rat) / of_nat b\<rceil> = (n + b - 1) div b"
proof -
  define c where "c = (n + b - 1) div b"
  define r where "r = (n + b - 1) mod b"
  have k: "n + b - 1 = c * b + r"
    unfolding c_def r_def by simp
  have rb: "r < b"
    unfolding r_def using assms by simp
  have up: "n \<le> c * b" using k rb assms by arith
  have lo: "c * b < n + b" using k rb assms by arith
  have b0: "(0::rat) < of_nat b" using assms by simp
  have "\<lceil>(of_nat n :: rat) / of_nat b\<rceil> = int c"
  proof (rule ceiling_unique)
    have "(of_nat (c * b) :: rat) < of_nat (n + b)"
      using lo by (simp only: of_nat_less_iff)
    then have "(of_nat c - 1) * (of_nat b :: rat) < of_nat n"
      by (simp add: algebra_simps)
    then show "of_int (int c) - 1 < (of_nat n :: rat) / of_nat b"
      using b0 by (simp add: pos_less_divide_eq)
  next
    have "(of_nat n :: rat) \<le> of_nat (c * b)"
      using up by (simp only: of_nat_le_iff)
    then show "(of_nat n :: rat) / of_nat b \<le> of_int (int c)"
      using b0 by (simp add: pos_divide_le_eq)
  qed
  then show ?thesis unfolding c_def by simp
qed

lemma chunk_loop_zero_aux:
  assumes "chunk_loop bsize mint configFiles i results batches = Some y"
  shows "\<not> (bsize = 0 \<and> i < length configFiles)"
proof (rule chunk_loop.raw_induct
    [where P = "\<lambda>bsize mint configFiles i results batches y. \<not> (bsize = 0 \<and> i < length configFiles)",
     OF _ assms])
  fix loop :: "nat \<Rightarrow> (string \<Rightarrow> 'a) \<Rightarrow> string list \<Rightarrow> nat \<Rightarrow> 'a list \<Rightarrow> nat list
      \<Rightarrow> ('a list \<times> nat list) option"
  fix b m fs j rs bs z
  assume IH: "\<And>b m fs j rs bs z. loop b m fs j rs bs = Some z \<Longrightarrow> \<not> (b = 0 \<and> j < length fs)"
    and step: "(if j < length fs
        then let chunk = take b (drop j fs); chunkResults = map m chunk
             in loop b m fs (j + b) (rs @ chunkResults) (bs @ [j div b + 1])
        else Some (rs, bs)) = Some z"
  show "\<not> (b = 0 \<and> j < length fs)"
  proof
    assume a: "b = 0 \<and> j < length fs"
    with step have "loop b m fs (j + b) (rs @ map m (take b (drop j fs))) (bs @ [j div b + 1]) = Some z"
      by (simp add: Let_def)
    from IH [OF this] a show False by simp
  qed
qed

lemma chunk_loop_never_returns:
  assumes "i < length configFiles"
  shows "chunk_loop 0 mint configFiles i results batches = None"
proof (cases "chunk_loop 0 mint configFiles i results batches")
  case None
  then show ?thesis .
next
  case (Some y)
  from chunk_loop_zero_aux [OF this] assms show ?thesis by simp
qed

section \<open>One catalog file\<close>

text \<open>
  What one item does: in simulation mode, and in live mode when its catalog file, its
  image, an upload or the transaction fails.
\<close>

lemma uploadFile_simulation:
  "IS_SIMULATION cfg \<Longrightarrow>
   uploadFile cfg h sv filePath ctype =
     (Inr (''https://arweave.net/simulation_id_'' @ random_suffix sv 0), [])"
  by (simp add: uploadFile_def done_with_def)

lemma mintSingleNFT_object_simulation:
  "IS_SIMULATION cfg \<Longrightarrow>
   mintSingleNFT_object cfg h sv identity c = (Inr (Simulated (name c) (generateSigner sv)), [])"
  by (simp add: mintSingleNFT_object_def uploadFile_simulation and_then_def done_with_def Let_def)

lemma load_and_mint_unreadable:
  "readFileSync h (Some (path_join (METADATA_FOLDER cfg) file)) = Inl e \<Longrightarrow>
   load_and_mint cfg h identity sv file = (Inl e, [])"
  by (simp add: load_and_mint_def action_simps)

lemma load_and_mint_malformed:
  "readFileSync h (Some (path_join (METADATA_FOLDER cfg) file)) = Inr content \<Longrightarrow>
   JSON_parse h content = Inl e \<Longrightarrow>
   load_and_mint cfg h identity sv file = (Inl e, [])"
  by (simp add: load_and_mint_def action_simps)

lemma load_and_mint_parsed:
  "readFileSync h (Some (path_join (METADATA_FOLDER cfg) file)) = Inr content \<Longrightarrow>
   JSON_parse h content = Inr nftData \<Longrightarrow>
   load_and_mint cfg h identity sv file = mintSingleNFT cfg h sv identity nftData"
  by (simp add: load_and_mint_def action_simps)

lemma mint_file_thrown:
  "load_and_mint cfg h identity sv file = (Inl err, evs) \<Longrightarrow>
   mint_file cfg h identity sv file = (Failed file (message err), evs)"
  by (simp add: mint_file_def)

lemma mint_file_returned:
  "load_and_mint cfg h identity sv file = (Inr res, evs) \<Longrightarrow>
   mint_file cfg h identity sv file = (res, evs)"
  by (simp add: mint_file_def)

lemma mint_file_simulation:
  assumes "IS_SIMULATION cfg"
  shows "mint_file cfg h identity sv f =
    ((case readFileSync h (Some (path_join (METADATA_FOLDER cfg) f)) of
        Inl err \<Rightarrow> Failed f (message err)
      | Inr content \<Rightarrow>
         (case JSON_parse h content of
            Inl err \<Rightarrow> Failed f (message err)
          | Inr JNull \<Rightarrow> Failed f ''Cannot read properties of null (reading 'imagePath')''
          | Inr (JObject c) \<Rightarrow> Simulated (name c) (generateSigner sv))), [])"
  using assms
  by (simp add: mint_file_def load_and_mint_def action_simps throw_def
      mintSingleNFT_object_simulation split: sum.splits nftData.splits)

lemma ENOENT_message_nonempty: "message (ENOENT syscall path) \<noteq> ''''"
  by (simp add: ENOENT_def)

lemma mint_file_unreadable_image:
  assumes "\<not> IS_SIMULATION cfg"
    and "readFileSync h (Some (path_join (METADATA_FOLDER cfg) f)) = Inr content"
    and "JSON_parse h content = Inr (JObject c)"
    and "statSync h (imagePath c) = Inl err"
  shows "mint_file cfg h identity sv f = (Failed f (message err), [])"
  using assms
  by (simp add: mint_file_def load_and_mint_def mintSingleNFT_object_def uploadFile_def
      calculateSize_def action_defs)

lemma uploadFile_never_sends:
  "SendAndConfirm tx \<notin> set (snd (uploadFile cfg h sv filePath ctype))"
  by (auto simp add: uploadFile_def calculateSize_def action_defs Let_def
      split: sum.splits if_splits)

lemma mintSingleNFT_object_sends:
  assumes "SendAndConfirm tx \<in> set (snd (mintSingleNFT_object cfg h sv identity c))"
  shows "basisPoints tx = royalty_basisPoints cfg c \<and> \<not> IS_SIMULATION cfg"
proof -
  obtain r evs where u: "uploadFile cfg h sv (imagePath c) ''image/jpeg'' = (r, evs)"
    by (cases "uploadFile cfg h sv (imagePath c) ''image/jpeg''")
  have n: "SendAndConfirm tx \<notin> set evs"
    using uploadFile_never_sends [of tx cfg h sv "imagePath c" "''image/jpeg''"] u by simp
  show ?thesis
    using assms n unfolding mintSingleNFT_object_def u
    by (auto simp add: action_defs Let_def split: sum.splits if_splits)
qed

lemma uploadFile_failed_upload:
  assumes "UploadFile request \<in> set (snd (uploadFile cfg h sv filePath ctype))"
    and "try_then (turbo_uploadFile (storage sv) request) upload_id = Inl err"
  shows "fst (uploadFile cfg h sv filePath ctype) = Inl err
     \<and> filter is_upload (snd (uploadFile cfg h sv filePath ctype)) = [UploadFile request]
     \<and> last (snd (uploadFile cfg h sv filePath ctype)) = UploadFile request"
  using assms
  by (auto simp add: uploadFile_def calculateSize_def action_defs Let_def try_then_def
      split: sum.splits if_splits)

lemma uploadFile_uploads_image_type:
  "UploadFile request \<in> set (snd (uploadFile cfg h sv filePath ctype)) \<Longrightarrow>
   contentType request = ctype"
  by (auto simp add: uploadFile_def calculateSize_def action_defs Let_def
      split: sum.splits if_splits)











section \<open>Funding\<close>

text \<open>
  Over the rationals, the rounded up amount covers the deficit
  (\<open>ceiling_covers_deficit\<close>). A top up is issued only when the price is greater than
  the balance, with the amount \<open>uploadFile\<close> computes in binary64
  (\<open>top_up_only_when_insufficient\<close>, \<open>no_top_up_when_funded\<close>). In live mode the upload of
  the metadata comes directly after the upload of the image
  (\<open>metadata_upload_follows_image_upload\<close>).
\<close>

lemma ceiling_covers_deficit:
  fixes d w :: rat
  assumes "0 < w"
  shows "d \<le> of_int \<lceil>d / w * 1000000000\<rceil> * w / 1000000000"
proof -
  have "d / w * 1000000000 \<le> of_int \<lceil>d / w * 1000000000\<rceil>"
    by (rule le_of_int_ceiling)
  then have "d / w * 1000000000 * w \<le> of_int \<lceil>d / w * 1000000000\<rceil> * w"
    using assms by (simp only: mult_le_cancel_right_pos)
  then show ?thesis
    using assms by simp
qed

lemma top_up_only_when_insufficient:
  assumes "TopUpWithTokens a \<in> set (snd (uploadFile cfg h sv filePath ctype))"
  shows "\<exists>n price balance rate.
     getUploadCosts (storage sv) n = Inr price
     \<and> getBalance (storage sv) = Inr balance
     \<and> js_gt price balance
     \<and> getWincForToken (storage sv) (Fin 1000000000) = Inr rate
     \<and> a = Math_ceil (js_mul (js_div (js_sub price balance) rate) (Fin 1000000000))"
  using assms
  by (auto simp add: uploadFile_def calculateSize_def action_defs Let_def
      split: sum.splits if_splits)

lemma no_top_up_when_funded:
  assumes "getUploadCosts (storage sv) = (\<lambda>n. Inr price)"
    and "getBalance (storage sv) = Inr balance"
    and "\<not> js_gt price balance"
  shows "TopUpWithTokens a \<notin> set (snd (uploadFile cfg h sv filePath ctype))
     \<and> GetWincForToken t \<notin> set (snd (uploadFile cfg h sv filePath ctype))"
  using assms
  by (auto simp add: uploadFile_def calculateSize_def action_defs Let_def
      split: sum.splits if_splits)

lemma metadata_upload_follows_image_upload:
  assumes "\<not> IS_SIMULATION cfg"
    and "UploadFile rq \<in> set (snd (mintSingleNFT_object cfg h sv identity c))"
    and "contentType rq = ''application/json''"
  shows "\<exists>pre img post. snd (mintSingleNFT_object cfg h sv identity c)
       = pre @ [UploadFile img, UploadFile rq] @ post
     \<and> contentType img = ''image/jpeg''"
proof -
  obtain r evs where u: "uploadFile cfg h sv (imagePath c) ''image/jpeg'' = (r, evs)"
    by (cases "uploadFile cfg h sv (imagePath c) ''image/jpeg''")
  have n: "UploadFile rq \<notin> set evs"
    using assms(1,3) u
    by (auto simp add: uploadFile_def calculateSize_def action_defs Let_def
        split: sum.splits if_splits)
  have e: "\<exists>pre img. evs = pre @ [UploadFile img] \<and> contentType img = ''image/jpeg''"
    if "r = Inr url" for url
    using assms(1) u that
    by (auto simp add: uploadFile_def calculateSize_def action_defs Let_def
        split: sum.splits if_splits)
  show ?thesis
  proof (cases r)
    case (Inl err)
    with assms(2) n show ?thesis
      unfolding mintSingleNFT_object_def u by (simp add: action_defs)
  next
    case (Inr url)
    from e [OF Inr] obtain pre img where evs: "evs = pre @ [UploadFile img]"
      and img: "contentType img = ''image/jpeg''"
      by blast
    show ?thesis
      using assms Inr n img unfolding mintSingleNFT_object_def u evs
      by (auto simp add: action_defs Let_def split: sum.splits if_splits)
  qed
qed

section \<open>The example worlds, run\<close>

text \<open>
  The top up amount for a deficit of 9224232045 at a rate of \<open>2 ^ 30\<close>, step by step,
  and the calls of one item of the demo world in live mode.
\<close>

lemma example_deficit: "js_sub (Fin 9224232045) (Fin 0) = Fin 9224232045"
  using fl_of_int [of 9224232045] by simp

lemma example_quotient:
  "js_div (Fin 9224232045) (Fin 1073741824) = Fin (9224232045 / 1073741824)"
proof -
  have r: "round_half_even ((9224232045 / 1073741824) / 2 powi (3 - 52)) = 4836154170408960"
    by (rule round_half_even_nearest) (simp_all add: power_int_minus)
  have "fl (9224232045 / 1073741824) = Fin (of_int 4836154170408960 * 2 powi (3 - 52))"
    by (rule fl_eq [OF _ _ _ _ r]) (simp_all add: power_int_minus)
  then show ?thesis
    by (simp add: power_int_minus)
qed

lemma example_product:
  "js_mul (Fin (9224232045 / 1073741824)) (Fin 1000000000) = Fin 8590735537"
proof -
  have r: "round_half_even ((9224232045 / 1073741824 * 1000000000) / 2 powi (33 - 52))
      = 4504019553222656"
    by (rule round_half_even_nearest) (simp_all add: power_int_minus)
  have "fl (9224232045 / 1073741824 * 1000000000)
      = Fin (of_int 4504019553222656 * 2 powi (33 - 52))"
    by (rule fl_eq [OF _ _ _ _ r]) (simp_all add: power_int_minus)
  then show ?thesis
    by (simp add: power_int_minus)
qed

lemma example_topUpAmount:
  "Math_ceil (js_mul (js_div (js_sub (Fin 9224232045) (Fin 0)) (Fin 1073741824)) (Fin 1000000000))
   = Fin 8590735537"
  unfolding example_deficit example_quotient example_product by simp

lemma demo_mint_calls:
  assumes "name c = Some ''Quantum 1''" and "imagePath c = Some ''./images/1.jpg''"
  shows "mintSingleNFT LIVE (demo_host k l [] [] 3)
       (demo_services (Fin 10) (Fin 100) (Fin 1000) (Inr (Response (Some ''tx1''))))
       ''operator'' (JObject c)
     = (Inr (Success (Some ''Quantum 1'') ''asset'' ''https://arweave.net/tx1''),
        [GetUploadCosts 3, GetBalance,
         UploadFile \<lparr>fileStream = ''{}'', fileSize = 3, contentType = ''image/jpeg''\<rparr>,
         UploadFile \<lparr>fileStream = ''{}'', fileSize = 2, contentType = ''application/json''\<rparr>,
         SendAndConfirm (demo_tx c)])"
  using assms
  by (simp add: mintSingleNFT_object_def uploadFile_def calculateSize_def action_defs
      CONFIG_def LIVE_def demo_host_def demo_services_def demo_tx_def Let_def)

section \<open>Claims\<close>

text \<open>
  C1. In live mode the funding check (the price of the payload and the balance are
  queried, and a top up is issued when the balance is short) is to come before each
  upload, the image and the metadata alike. \<open>uploadFile\<close> does so for the image;
  \<open>mintSingleNFT\<close> uploads the metadata with \<open>turbo.uploadFile\<close> directly. The theorem
  runs one item in live mode: the calls are the price and the balance for the 3 bytes of
  the image, the upload of the image, and then the upload of the metadata with no query
  in between.
\<close>

theorem metadata_upload_without_funding_check:
  "mintSingleNFT LIVE (demo_host (Inr ''[1,2,3]'') (Inr three_files) [] [] 3)
     (demo_services (Fin 10) (Fin 100) (Fin 1000) (Inr (Response (Some ''tx1''))))
     ''operator'' (JObject demo_entry)
   = (Inr (Success (Some ''Quantum 1'') ''asset'' ''https://arweave.net/tx1''),
      [GetUploadCosts 3, GetBalance,
       UploadFile \<lparr>fileStream = ''{}'', fileSize = 3, contentType = ''image/jpeg''\<rparr>,
       UploadFile \<lparr>fileStream = ''{}'', fileSize = 2, contentType = ''application/json''\<rparr>,
       SendAndConfirm (demo_tx demo_entry)])"
  by (rule demo_mint_calls) (simp_all add: demo_entry_def)

text \<open>
  C2 (as amended). The exit code of the process is 0 whenever the run ends. A fatal
  startup failure (the key file or the catalog folder cannot be read) rejects the promise
  of \<open>batchMintNFTs\<close> before any chunk runs and before a report is written; the final
  \<open>catch\<close> logs it, so the exit code is 0 there too. Failures of single items never
  reach the exit code.
\<close>

theorem exit_code_is_zero:
  "(startup cfg h = Inl e \<longrightarrow>
      batchMintNFTs cfg h net
        = Some \<lparr>settled = Inl e, report = None, batches_logged = [], calls = []\<rparr>)
   \<and> (batchMintNFTs cfg h net = Some r \<longrightarrow> main cfg h net = Some 0)"
  by (simp add: batchMintNFTs_not_started main_def exit_code_def catch_console_error_def
      split: sum.splits)

theorem exit_code_is_zero_witness:
  "startup CONFIG (demo_host (Inr ''[1,2,3]'') (Inl (ENOENT ''scandir'' ''./nfts'')) [] [] 3)
     = Inl (ENOENT ''scandir'' ''./nfts'')
   \<and> batchMintNFTs CONFIG
       (demo_host (Inr ''[1,2,3]'') (Inl (ENOENT ''scandir'' ''./nfts'')) [] [] 3)
       (demo_net (Fin 10) (Fin 100) (Fin 1000) (Inr (Response (Some ''tx1''))))
     = Some \<lparr>settled = Inl (ENOENT ''scandir'' ''./nfts''), report = None,
         batches_logged = [], calls = []\<rparr>
   \<and> main CONFIG
       (demo_host (Inr ''[1,2,3]'') (Inl (ENOENT ''scandir'' ''./nfts'')) [] [] 3)
       (demo_net (Fin 10) (Fin 100) (Fin 1000) (Inr (Response (Some ''tx1'')))) = Some 0"
proof -
  let ?h = "demo_host (Inr ''[1,2,3]'') (Inl (ENOENT ''scandir'' ''./nfts'')) [] [] 3"
  have s: "startup CONFIG ?h = Inl (ENOENT ''scandir'' ''./nfts'')"
    by (simp add: startup_def try_then_def demo_defs)
  from exit_code_is_zero [of CONFIG ?h "ENOENT ''scandir'' ''./nfts''"
      "demo_net (Fin 10) (Fin 100) (Fin 1000) (Inr (Response (Some ''tx1'')))"
      "\<lparr>settled = Inl (ENOENT ''scandir'' ''./nfts''), report = None,
         batches_logged = [], calls = []\<rparr>"] s
  show ?thesis by simp
qed

text \<open>
  Counterexample to C2 as stated: the key file does not exist, the startup fails, and
  the exit code is 0.
\<close>

theorem missing_key_file_exits_zero:
  "startup CONFIG
     (demo_host (Inl (ENOENT ''open'' ''./keypair.json'')) (Inr [''1.json'']) [] [] 3)
     = Inl (ENOENT ''open'' ''./keypair.json'')
   \<and> main CONFIG
       (demo_host (Inl (ENOENT ''open'' ''./keypair.json'')) (Inr [''1.json'']) [] [] 3)
       (demo_net (Fin 10) (Fin 100) (Fin 1000) (Inr (Response (Some ''tx1'')))) = Some 0"
  by (simp add: main_def batchMintNFTs_def startup_def try_then_def demo_defs exit_code_def
      catch_console_error_def)

text \<open>
  C3. With a positive batch size \<open>C\<close> and \<open>N\<close> catalog files, the loop runs
  \<open>\<lceil>N / C\<rceil>\<close> chunks (numbered 1, 2, ...) and then returns; the report that is written
  has exactly \<open>N\<close> outcomes, the outcome of each catalog file at its own position,
  whatever the outcomes are.
\<close>

theorem chunk_count_and_report_size:
  assumes "0 < BATCH_SIZE cfg"
    and "startup cfg h = Inr (identity, configFiles)"
    and "writeFileSync h ''batch-mint-results.json''
           (map (\<lambda>file. fst (mint_file cfg h identity (net file) file)) configFiles) = Inr ()"
  shows "\<exists>r outcomes. batchMintNFTs cfg h net = Some r
     \<and> length (batches_logged r)
         = nat \<lceil>(of_nat (length configFiles) :: rat) / of_nat (BATCH_SIZE cfg)\<rceil>
     \<and> batches_logged r = [1..<Suc (length (batches_logged r))]
     \<and> report r = Some outcomes
     \<and> length outcomes = length configFiles
     \<and> outcomes = map (\<lambda>file. fst (mint_file cfg h identity (net file) file)) configFiles"
  unfolding batchMintNFTs_written [OF assms]
  by (simp add: ceiling_div_nat [OF assms(1)] map_Suc_upt)

theorem chunk_count_and_report_size_witness:
  "\<exists>r outcomes.
     batchMintNFTs CONFIG
       (demo_host (Inr ''[1,2,3]'') (Inr seven_files) [] [] 3)
       (demo_net (Fin 10) (Fin 100) (Fin 1000) (Inr (Response (Some ''tx1'')))) = Some r
     \<and> length (batches_logged r) = 3
     \<and> batches_logged r = [1, 2, 3]
     \<and> report r = Some outcomes
     \<and> length outcomes = 7"
proof -
  have s: "startup CONFIG
      (demo_host (Inr ''[1,2,3]'') (Inr seven_files) [] [] 3)
    = Inr (''operator'',
        [''1.json'', ''2.json'', ''3.json'', ''4.json'', ''5.json'', ''6.json'', ''7.json''])"
    by (simp add: startup_def try_then_def CONFIG_def demo_host_def seven_files_def endsWith_def)
  have b: "0 < BATCH_SIZE CONFIG"
    by (simp add: CONFIG_def)
  have w: "writeFileSync
      (demo_host (Inr ''[1,2,3]'') (Inr seven_files) [] [] 3)
      ''batch-mint-results.json'' d = Inr ()" for d
    by (simp add: demo_host_def)
  have c: "nat \<lceil>(of_nat (length [''1.json'', ''2.json'', ''3.json'', ''4.json'', ''5.json'',
      ''6.json'', ''7.json'']) :: rat) / of_nat (BATCH_SIZE CONFIG)\<rceil> = 3"
    unfolding ceiling_div_nat [OF b] by (simp add: CONFIG_def)
  from chunk_count_and_report_size [OF b s w,
      of "demo_net (Fin 10) (Fin 100) (Fin 1000) (Inr (Response (Some ''tx1'')))"]
  obtain r outcomes where r: "batchMintNFTs CONFIG
       (demo_host (Inr ''[1,2,3]'') (Inr seven_files) [] [] 3)
       (demo_net (Fin 10) (Fin 100) (Fin 1000) (Inr (Response (Some ''tx1'')))) = Some r"
    and n0: "length (batches_logged r) = nat \<lceil>(of_nat (length [''1.json'', ''2.json'',
      ''3.json'', ''4.json'', ''5.json'', ''6.json'', ''7.json'']) :: rat)
      / of_nat (BATCH_SIZE CONFIG)\<rceil>"
    and l: "batches_logged r = [1..<Suc (length (batches_logged r))]"
    and o: "report r = Some outcomes"
    and k: "length outcomes = length [''1.json'', ''2.json'', ''3.json'', ''4.json'',
      ''5.json'', ''6.json'', ''7.json'']"
    by blast
  have n: "length (batches_logged r) = 3"
    using n0 unfolding c .
  have "batches_logged r = [1, 2, 3]"
    using l unfolding n by (simp add: upt_rec)
  moreover have "length outcomes = 7"
    using k by simp
  ultimately show ?thesis
    using r n o by blast
qed




text \<open>
  C5 (as amended). In simulation mode no item makes a network call, whatever the
  catalog holds. An item whose catalog file is read and parsed to a value other than
  \<open>null\<close> resolves to a simulated outcome; an item whose file cannot be read or
  parsed, or holds \<open>null\<close>, resolves to a failed one. With a positive batch size, after
  a startup that succeeded, the run returns and writes the report, for every answer of
  the outside world, so also when it is run twice.
\<close>

theorem simulation_makes_no_network_call:
  assumes "IS_SIMULATION cfg"
    and "0 < BATCH_SIZE cfg"
    and "startup cfg h = Inr (identity, configFiles)"
    and "writeFileSync h ''batch-mint-results.json''
           (map (\<lambda>file. fst (mint_file cfg h identity (net file) file)) configFiles) = Inr ()"
  shows "\<exists>r outcomes. batchMintNFTs cfg h net = Some r
     \<and> settled r = Inr ()
     \<and> calls r = replicate (length configFiles) []
     \<and> report r = Some outcomes
     \<and> length outcomes = length configFiles
     \<and> (\<forall>i<length configFiles.
           case readFileSync h (Some (path_join (METADATA_FOLDER cfg) (configFiles ! i))) of
             Inl err \<Rightarrow> outcomes ! i = Failed (configFiles ! i) (message err)
           | Inr content \<Rightarrow>
              (case JSON_parse h content of
                 Inl err \<Rightarrow> outcomes ! i = Failed (configFiles ! i) (message err)
               | Inr JNull \<Rightarrow> outcomes ! i = Failed (configFiles ! i)
                   ''Cannot read properties of null (reading 'imagePath')''
               | Inr (JObject c) \<Rightarrow>
                   outcomes ! i = Simulated (name c) (generateSigner (net (configFiles ! i)))))"
proof -
  let ?outs = "map (\<lambda>f. fst (mint_file cfg h identity (net f) f)) configFiles"
  have c: "map (\<lambda>f. snd (mint_file cfg h identity (net f) f)) configFiles
      = replicate (length configFiles) []"
    by (simp add: map_replicate_const mint_file_simulation [OF assms(1)])
  have all: "\<forall>i<length configFiles.
      case readFileSync h (Some (path_join (METADATA_FOLDER cfg) (configFiles ! i))) of
        Inl err \<Rightarrow> ?outs ! i = Failed (configFiles ! i) (message err)
      | Inr content \<Rightarrow>
         (case JSON_parse h content of
            Inl err \<Rightarrow> ?outs ! i = Failed (configFiles ! i) (message err)
          | Inr JNull \<Rightarrow> ?outs ! i = Failed (configFiles ! i)
              ''Cannot read properties of null (reading 'imagePath')''
          | Inr (JObject c) \<Rightarrow> ?outs ! i
              = Simulated (name c) (generateSigner (net (configFiles ! i))))"
    by (simp add: mint_file_simulation [OF assms(1)] split: sum.splits nftData.splits)
  show ?thesis
    unfolding batchMintNFTs_written [OF assms(2,3,4)]
    using all c by simp
qed

theorem simulation_makes_no_network_call_witness:
  "\<exists>r outcomes.
     batchMintNFTs CONFIG
       (demo_host (Inr ''[1,2,3]'') (Inr three_files) [''./nfts/2.json''] [] 3)
       (demo_net (Fin 10) (Fin 100) (Fin 1000) (Inr (Response (Some ''tx1'')))) = Some r
     \<and> settled r = Inr ()
     \<and> calls r = [[], [], []]
     \<and> report r = Some outcomes
     \<and> length outcomes = 3
     \<and> outcomes ! 0 = Simulated (Some ''Quantum 1'') ''asset''
     \<and> outcomes ! 1 = Failed ''2.json'' ''Unexpected end of JSON input''
     \<and> outcomes ! 2 = Simulated (Some ''Quantum 1'') ''asset''"
proof -
  let ?h = "demo_host (Inr ''[1,2,3]'') (Inr three_files) [''./nfts/2.json''] [] 3"
  let ?net = "demo_net (Fin 10) (Fin 100) (Fin 1000) (Inr (Response (Some ''tx1'')))"
  let ?files = "[''1.json'', ''2.json'', ''3.json'']"
  have m: "IS_SIMULATION CONFIG"
    by (simp add: CONFIG_def)
  have b: "0 < BATCH_SIZE CONFIG"
    by (simp add: CONFIG_def)
  have s: "startup CONFIG ?h = Inr (''operator'', ?files)"
    by (simp add: startup_def try_then_def demo_defs three_files_def endsWith_def)
  have w: "writeFileSync ?h ''batch-mint-results.json'' d = Inr ()" for d
    by (simp add: demo_host_def)
  from simulation_makes_no_network_call [OF m b s w, of ?net]
  obtain r outcomes where r: "batchMintNFTs CONFIG ?h ?net = Some r"
    and t: "settled r = Inr ()"
    and c: "calls r = replicate (length ?files) []"
    and o: "report r = Some outcomes"
    and n: "length outcomes = length ?files"
    and e: "\<forall>i<length ?files.
           case readFileSync ?h (Some (path_join (METADATA_FOLDER CONFIG) (?files ! i))) of
             Inl err \<Rightarrow> outcomes ! i = Failed (?files ! i) (message err)
           | Inr content \<Rightarrow>
              (case JSON_parse ?h content of
                 Inl err \<Rightarrow> outcomes ! i = Failed (?files ! i) (message err)
               | Inr JNull \<Rightarrow> outcomes ! i = Failed (?files ! i)
                   ''Cannot read properties of null (reading 'imagePath')''
               | Inr (JObject c) \<Rightarrow>
                   outcomes ! i = Simulated (name c) (generateSigner (?net (?files ! i))))"
    by blast
  have "outcomes ! 0 = Simulated (Some ''Quantum 1'') ''asset''"
    using e [rule_format, of 0] by (simp add: demo_defs path_join_def)
  moreover have "outcomes ! 1 = Failed ''2.json'' ''Unexpected end of JSON input''"
    using e [rule_format, of 1] by (simp add: demo_defs path_join_def)
  moreover have "outcomes ! 2 = Simulated (Some ''Quantum 1'') ''asset''"
    using e [rule_format, of 2] by (simp add: demo_defs path_join_def)
  moreover have "length outcomes = 3"
    using n by simp
  moreover have "calls r = [[], [], []]"
    using c by (simp add: numeral_3_eq_3)
  ultimately show ?thesis
    using r t o by blast
qed

text \<open>
  Counterexample to C5 as stated: in simulation mode, a catalog whose only file is cut
  off gives a failed outcome.
\<close>

theorem simulated_catalog_with_malformed_entry:
  "batchMintNFTs CONFIG
     (demo_host (Inr ''[1,2,3]'') (Inr [''1.json'']) [''./nfts/1.json''] [] 3)
     (demo_net (Fin 10) (Fin 100) (Fin 1000) (Inr (Response (Some ''tx1''))))
   = Some \<lparr>settled = Inr (),
       report = Some [Failed ''1.json'' ''Unexpected end of JSON input''],
       batches_logged = [1], calls = [[]]\<rparr>
   \<and> IS_SIMULATION CONFIG
   \<and> status (Failed ''1.json'' ''Unexpected end of JSON input'') \<noteq> ''simulated''"
proof -
  let ?h = "demo_host (Inr ''[1,2,3]'') (Inr [''1.json'']) [''./nfts/1.json''] [] 3"
  have b: "0 < BATCH_SIZE CONFIG"
    by (simp add: CONFIG_def)
  have s: "startup CONFIG ?h = Inr (''operator'', [''1.json''])"
    by (simp add: startup_def try_then_def demo_defs endsWith_def)
  have w: "writeFileSync ?h ''batch-mint-results.json'' d = Inr ()" for d
    by (simp add: demo_host_def)
  have m: "mint_file CONFIG ?h ''operator'' sv ''1.json''
      = (Failed ''1.json'' ''Unexpected end of JSON input'', [])" for sv
    by (simp add: mint_file_def load_and_mint_def action_simps demo_defs path_join_def)
  have i: "IS_SIMULATION CONFIG"
    by (simp add: CONFIG_def)
  have n: "BATCH_SIZE CONFIG = 3"
    by (simp add: CONFIG_def)
  show ?thesis
    unfolding batchMintNFTs_written [OF b s w]
    by (simp add: m i n)
qed

text \<open>
  C6 (as amended). In live mode, when the upload call of \<open>uploadFile\<close> is made and it
  rejects, or resolves to nothing, \<open>uploadFile\<close> throws that error: the upload is its
  last call and its only upload, so nothing is tried again. \<open>mintSingleNFT\<close> then throws
  the same error and makes no further call. (A response that has no \<open>id\<close> is not an
  error: see the counterexample.)
\<close>

theorem upload_failure_propagates:
  assumes "\<not> IS_SIMULATION cfg"
    and "UploadFile request \<in> set (snd (uploadFile cfg h sv filePath ctype))"
    and "try_then (turbo_uploadFile (storage sv) request) upload_id = Inl err"
  shows "fst (uploadFile cfg h sv filePath ctype) = Inl err
     \<and> filter is_upload (snd (uploadFile cfg h sv filePath ctype)) = [UploadFile request]
     \<and> last (snd (uploadFile cfg h sv filePath ctype)) = UploadFile request
     \<and> (filePath = imagePath c \<and> ctype = ''image/jpeg'' \<longrightarrow>
          mintSingleNFT_object cfg h sv identity c
            = (Inl err, snd (uploadFile cfg h sv filePath ctype)))"
proof -
  note u = uploadFile_failed_upload [OF assms(2,3)]
  then have "mintSingleNFT_object cfg h sv identity c
      = (Inl err, snd (uploadFile cfg h sv filePath ctype))"
    if "filePath = imagePath c \<and> ctype = ''image/jpeg''"
    using that unfolding mintSingleNFT_object_def by (simp add: and_then_failed)
  with u show ?thesis by blast
qed

theorem upload_failure_propagates_witness:
  "fst (uploadFile LIVE (demo_host (Inr ''[1,2,3]'') (Inr three_files) [] [] 3)
         (demo_services (Fin 10) (Fin 100) (Fin 1000) (Inl (Error ''503 Service Unavailable'')))
         (Some ''./images/1.jpg'') ''image/jpeg'')
     = Inl (Error ''503 Service Unavailable'')
   \<and> filter is_upload
       (snd (uploadFile LIVE (demo_host (Inr ''[1,2,3]'') (Inr three_files) [] [] 3)
         (demo_services (Fin 10) (Fin 100) (Fin 1000) (Inl (Error ''503 Service Unavailable'')))
         (Some ''./images/1.jpg'') ''image/jpeg''))
     = [UploadFile \<lparr>fileStream = ''{}'', fileSize = 3, contentType = ''image/jpeg''\<rparr>]
   \<and> mintSingleNFT_object LIVE (demo_host (Inr ''[1,2,3]'') (Inr three_files) [] [] 3)
         (demo_services (Fin 10) (Fin 100) (Fin 1000) (Inl (Error ''503 Service Unavailable'')))
         ''operator'' demo_entry
     = (Inl (Error ''503 Service Unavailable''),
        [GetUploadCosts 3, GetBalance,
         UploadFile \<lparr>fileStream = ''{}'', fileSize = 3, contentType = ''image/jpeg''\<rparr>])"
proof -
  let ?h = "demo_host (Inr ''[1,2,3]'') (Inr three_files) [] [] 3"
  let ?sv = "demo_services (Fin 10) (Fin 100) (Fin 1000) (Inl (Error ''503 Service Unavailable''))"
  let ?rq = "\<lparr>fileStream = ''{}'', fileSize = 3, contentType = ''image/jpeg''\<rparr>"
  have l: "\<not> IS_SIMULATION LIVE"
    by (simp add: demo_defs)
  have t: "snd (uploadFile LIVE ?h ?sv (Some ''./images/1.jpg'') ''image/jpeg'')
      = [GetUploadCosts 3, GetBalance, UploadFile ?rq]"
    by (simp add: uploadFile_def calculateSize_def action_defs demo_defs)
  have c: "UploadFile ?rq \<in> set (snd (uploadFile LIVE ?h ?sv (Some ''./images/1.jpg'') ''image/jpeg''))"
    unfolding t by simp
  have f: "try_then (turbo_uploadFile (storage ?sv) ?rq) upload_id = Inl (Error ''503 Service Unavailable'')"
    by (simp add: try_then_def demo_defs)
  have i: "Some ''./images/1.jpg'' = imagePath demo_entry \<and> ''image/jpeg'' = ''image/jpeg''"
    by (simp add: demo_defs)
  from upload_failure_propagates [OF l c f, of demo_entry "''operator''"] i
  show ?thesis
    unfolding t by simp
qed

text \<open>
  Counterexample to C6 as stated: the storage network answers without an \<open>id\<close>, and
  \<open>uploadFile\<close> returns an address that ends in \<open>undefined\<close>.
\<close>

theorem upload_without_identifier_succeeds:
  "\<not> IS_SIMULATION LIVE
   \<and> uploadFile LIVE (demo_host (Inr ''[1,2,3]'') (Inr three_files) [] [] 3)
       (demo_services (Fin 10) (Fin 100) (Fin 1000) (Inr (Response None)))
       (Some ''./images/1.jpg'') ''image/jpeg''
     = (Inr ''https://arweave.net/undefined'',
        [GetUploadCosts 3, GetBalance,
         UploadFile \<lparr>fileStream = ''{}'', fileSize = 3, contentType = ''image/jpeg''\<rparr>])"
  by (simp add: uploadFile_def calculateSize_def action_defs demo_defs)

text \<open>
  C7 (as amended). In live mode, an entry whose image path does not exist resolves to a
  failed outcome with its file name and the message of the file system's error, which is
  not empty; the item makes no network call. Every other entry of the catalog has the
  outcome of its own run.
\<close>

theorem missing_image_fails_only_its_item:
  assumes "\<not> IS_SIMULATION cfg"
    and "0 < BATCH_SIZE cfg"
    and "startup cfg h = Inr (identity, configFiles)"
    and "writeFileSync h ''batch-mint-results.json''
           (map (\<lambda>file. fst (mint_file cfg h identity (net file) file)) configFiles) = Inr ()"
    and "i < length configFiles"
    and "readFileSync h (Some (path_join (METADATA_FOLDER cfg) (configFiles ! i))) = Inr content"
    and "JSON_parse h content = Inr (JObject c)"
    and "imagePath c = Some p"
    and "statSync h (Some p) = Inl (ENOENT ''stat'' p)"
  shows "\<exists>r outcomes. batchMintNFTs cfg h net = Some r
     \<and> report r = Some outcomes
     \<and> length outcomes = length configFiles
     \<and> outcomes ! i = Failed (configFiles ! i) (message (ENOENT ''stat'' p))
     \<and> message (ENOENT ''stat'' p) \<noteq> ''''
     \<and> calls r ! i = []
     \<and> (\<forall>j<length configFiles. j \<noteq> i \<longrightarrow>
           outcomes ! j = fst (mint_file cfg h identity (net (configFiles ! j)) (configFiles ! j)))"
proof -
  have s: "statSync h (imagePath c) = Inl (ENOENT ''stat'' p)"
    using assms(8,9) by simp
  have m: "mint_file cfg h identity (net (configFiles ! i)) (configFiles ! i)
      = (Failed (configFiles ! i) (message (ENOENT ''stat'' p)), [])"
    by (rule mint_file_unreadable_image [OF assms(1) assms(6) assms(7) s])
  show ?thesis
    unfolding batchMintNFTs_written [OF assms(2,3,4)]
    using assms(5) m by (simp add: ENOENT_message_nonempty)
qed

theorem missing_image_fails_only_its_item_witness:
  "\<exists>r outcomes.
     batchMintNFTs LIVE
       (demo_host (Inr ''[1,2,3]'') (Inr three_files) [] [''./nfts/2.json''] 3)
       (demo_net (Fin 10) (Fin 100) (Fin 1000) (Inr (Response (Some ''tx1'')))) = Some r
     \<and> report r = Some outcomes
     \<and> length outcomes = 3
     \<and> outcomes ! 0 = Success (Some ''Quantum 1'') ''asset'' ''https://arweave.net/tx1''
     \<and> outcomes ! 1 = Failed ''2.json''
           (''ENOENT: no such file or directory, stat '' @ [CHR 0x27] @ ''./images/missing.jpg'' @ [CHR 0x27])
     \<and> outcomes ! 2 = Success (Some ''Quantum 1'') ''asset'' ''https://arweave.net/tx1''
     \<and> calls r ! 1 = []"
proof -
  let ?h = "demo_host (Inr ''[1,2,3]'') (Inr three_files) [] [''./nfts/2.json''] 3"
  let ?sv = "demo_services (Fin 10) (Fin 100) (Fin 1000) (Inr (Response (Some ''tx1'')))"
  let ?net = "demo_net (Fin 10) (Fin 100) (Fin 1000) (Inr (Response (Some ''tx1'')))"
  let ?files = "[''1.json'', ''2.json'', ''3.json'']"
  have l: "\<not> IS_SIMULATION LIVE"
    by (simp add: demo_defs)
  have b: "0 < BATCH_SIZE LIVE"
    by (simp add: demo_defs)
  have s: "startup LIVE ?h = Inr (''operator'', ?files)"
    by (simp add: startup_def try_then_def demo_defs three_files_def endsWith_def)
  have w: "writeFileSync ?h ''batch-mint-results.json'' d = Inr ()" for d
    by (simp add: demo_host_def)
  have i: "1 < length ?files"
    by simp
  have r: "readFileSync ?h (Some (path_join (METADATA_FOLDER LIVE) (?files ! 1))) = Inr ''{missing}''"
    by (simp add: demo_defs path_join_def)
  have p: "JSON_parse ?h ''{missing}'' = Inr (JObject lost_entry)"
    by (simp add: demo_defs)
  have c: "imagePath lost_entry = Some ''./images/missing.jpg''"
    by (simp add: demo_defs)
  have e: "statSync ?h (Some ''./images/missing.jpg'') = Inl (ENOENT ''stat'' ''./images/missing.jpg'')"
    by (simp add: demo_defs)
  have ok: "fst (mint_file LIVE ?h ''operator'' ?sv f)
      = Success (Some ''Quantum 1'') ''asset'' ''https://arweave.net/tx1''"
    if "f = ''1.json'' \<or> f = ''3.json''" for f
    using that
    by (auto simp add: mint_file_def load_and_mint_def mintSingleNFT_object_def uploadFile_def
        calculateSize_def action_defs demo_defs path_join_def Let_def)
  from missing_image_fails_only_its_item [OF l b s w i r p c e, of ?net]
  obtain r outcomes where r: "batchMintNFTs LIVE ?h ?net = Some r"
    and o: "report r = Some outcomes"
    and n: "length outcomes = length ?files"
    and f: "outcomes ! 1 = Failed (?files ! 1) (message (ENOENT ''stat'' ''./images/missing.jpg''))"
    and k: "calls r ! 1 = []"
    and a: "\<forall>j<length ?files. j \<noteq> 1 \<longrightarrow>
           outcomes ! j = fst (mint_file LIVE ?h ''operator'' (?net (?files ! j)) (?files ! j))"
    by blast
  have "outcomes ! 0 = Success (Some ''Quantum 1'') ''asset'' ''https://arweave.net/tx1''"
    using a [rule_format, of 0] ok [of "''1.json''"] by (simp add: demo_net_def)
  moreover have "outcomes ! 2 = Success (Some ''Quantum 1'') ''asset'' ''https://arweave.net/tx1''"
    using a [rule_format, of 2] ok [of "''3.json''"] by (simp add: demo_net_def)
  moreover have "outcomes ! 1 = Failed ''2.json''
      (''ENOENT: no such file or directory, stat '' @ [CHR 0x27] @ ''./images/missing.jpg'' @ [CHR 0x27])"
    using f by (simp add: ENOENT_def)
  moreover have "length outcomes = 3"
    using n by simp
  ultimately show ?thesis
    using r o k by blast
qed

text \<open>
  Counterexample to C7 as stated: in simulation mode the image is never read, and the
  entry whose image does not exist resolves to a simulated outcome.
\<close>

theorem missing_image_is_simulated:
  "IS_SIMULATION CONFIG
   \<and> readFileSync (demo_host (Inr ''[1,2,3]'') (Inr [''1.json'']) [] [''./nfts/1.json''] 3)
       (Some (path_join (METADATA_FOLDER CONFIG) ''1.json'')) = Inr ''{missing}''
   \<and> JSON_parse (demo_host (Inr ''[1,2,3]'') (Inr [''1.json'']) [] [''./nfts/1.json''] 3)
       ''{missing}'' = Inr (JObject lost_entry)
   \<and> statSync (demo_host (Inr ''[1,2,3]'') (Inr [''1.json'']) [] [''./nfts/1.json''] 3)
       (imagePath lost_entry) = Inl (ENOENT ''stat'' ''./images/missing.jpg'')
   \<and> batchMintNFTs CONFIG
       (demo_host (Inr ''[1,2,3]'') (Inr [''1.json'']) [] [''./nfts/1.json''] 3)
       (demo_net (Fin 10) (Fin 100) (Fin 1000) (Inr (Response (Some ''tx1''))))
     = Some \<lparr>settled = Inr (),
         report = Some [Simulated (Some ''Quantum 1'') ''asset''],
         batches_logged = [1], calls = [[]]\<rparr>"
proof -
  let ?h = "demo_host (Inr ''[1,2,3]'') (Inr [''1.json'']) [] [''./nfts/1.json''] 3"
  have b: "0 < BATCH_SIZE CONFIG"
    by (simp add: CONFIG_def)
  have n: "BATCH_SIZE CONFIG = 3"
    by (simp add: CONFIG_def)
  have i: "IS_SIMULATION CONFIG"
    by (simp add: CONFIG_def)
  have s: "startup CONFIG ?h = Inr (''operator'', [''1.json''])"
    by (simp add: startup_def try_then_def demo_defs endsWith_def)
  have w: "writeFileSync ?h ''batch-mint-results.json'' d = Inr ()" for d
    by (simp add: demo_host_def)
  have m: "mint_file CONFIG ?h ''operator'' sv ''1.json''
      = (Simulated (Some ''Quantum 1'') (generateSigner sv), [])" for sv
    unfolding mint_file_simulation [OF i] by (simp add: demo_defs path_join_def)
  have g: "generateSigner (demo_net (Fin 10) (Fin 100) (Fin 1000) (Inr (Response (Some ''tx1''))) f)
      = ''asset''" for f
    by (simp add: demo_defs)
  have x: "readFileSync ?h (Some (path_join (METADATA_FOLDER CONFIG) ''1.json'')) = Inr ''{missing}''
     \<and> JSON_parse ?h ''{missing}'' = Inr (JObject lost_entry)
     \<and> statSync ?h (imagePath lost_entry) = Inl (ENOENT ''stat'' ''./images/missing.jpg'')"
    by (simp add: demo_defs path_join_def)
  show ?thesis
    unfolding batchMintNFTs_written [OF b s w]
    using x by (simp add: m i n g)
qed

text \<open>
  C8. The top up is to cover the deficit once it is converted back through the same
  exchange rate. \<open>uploadFile\<close> computes
  \<open>Math.ceil((requiredWinc / wincForOneSol) * 1_000_000_000)\<close> in binary64. The theorem
  runs it with a price of 9224232045, a balance of 0 and 1073741824 (\<open>2 ^ 30\<close>) winc for
  \<open>10 ^ 9\<close> tokens. The quotient is exact; the product is
  \<open>8590735537 + 1 / 2 ^ 21\<close>, which is not a binary64 value and rounds to 8590735537
  before \<open>Math.ceil\<close> sees it. The top up of 8590735537 tokens converts back to less than
  the deficit; 8590735538 would cover it (\<open>ceiling_covers_deficit\<close>).
\<close>

theorem top_up_underfunds:
  "uploadFile LIVE (demo_host (Inr ''[1,2,3]'') (Inr three_files) [] [] 3)
     (demo_services (Fin 9224232045) (Fin 0) (Fin 1073741824) (Inr (Response (Some ''tx1''))))
     (Some ''./images/1.jpg'') ''image/jpeg''
   = (Inr ''https://arweave.net/tx1'',
      [GetUploadCosts 3, GetBalance, GetWincForToken (Fin 1000000000),
       TopUpWithTokens (Fin 8590735537),
       UploadFile \<lparr>fileStream = ''{}'', fileSize = 3, contentType = ''image/jpeg''\<rparr>])
   \<and> (8590735537 :: rat) * 1073741824 / 1000000000 < 9224232045 - 0"
  by (simp add: uploadFile_def calculateSize_def action_defs LIVE_def CONFIG_def demo_host_def
      demo_services_def Let_def example_topUpAmount
      del: js_sub.simps js_div.simps js_mul.simps Math_ceil.simps)

text \<open>
  C9 (as amended). The basis points of the creation transaction are the default royalty
  percentage times 100 when the entry has no royalty percentage, and the entry's royalty
  percentage times 100 when it has one that is truthy (not zero): for a whole percentage
  that is the exact product, and 7 gives 700.
\<close>

theorem royalty_basis_points:
  assumes "SendAndConfirm tx \<in> set (snd (mintSingleNFT cfg h sv identity (JObject c)))"
  shows "(royaltyPercentage c = None \<longrightarrow>
            basisPoints tx = js_mul (ROYALTY_PERCENTAGE cfg) (Fin 100))
     \<and> (\<forall>r. royaltyPercentage c = Some r \<and> truthy r \<longrightarrow> basisPoints tx = js_mul r (Fin 100))
     \<and> (\<forall>n. royaltyPercentage c = Some (Fin (of_int n)) \<and> n \<noteq> 0 \<and> \<bar>n\<bar> * 100 < 2 ^ 53 \<longrightarrow>
            basisPoints tx = Fin (of_int (n * 100)))
     \<and> (royaltyPercentage c = Some (Fin 7) \<longrightarrow> basisPoints tx = Fin 700)"
proof -
  have b: "basisPoints tx = royalty_basisPoints cfg c"
    using assms mintSingleNFT_object_sends by simp
  have i: "js_mul (Fin (of_int n)) (Fin 100) = Fin (of_int (n * 100))" if "\<bar>n\<bar> * 100 < 2 ^ 53" for n
  proof -
    have "\<bar>n * 100\<bar> < 2 ^ 53"
      using that by (simp add: abs_mult)
    from fl_of_int [OF this] show ?thesis by simp
  qed
  have s: "js_mul (Fin 7) (Fin 100) = Fin 700"
    using i [of 7] by simp
  show ?thesis
    unfolding b royalty_basisPoints_def royalty_or_default_def
    using i s by simp
qed

theorem royalty_basis_points_witness:
  "SendAndConfirm (demo_tx demo_entry)
     \<in> set (snd (mintSingleNFT LIVE (demo_host (Inr ''[1,2,3]'') (Inr three_files) [] [] 3)
         (demo_services (Fin 10) (Fin 100) (Fin 1000) (Inr (Response (Some ''tx1''))))
         ''operator'' (JObject demo_entry)))
   \<and> royaltyPercentage demo_entry = Some (Fin 7)
   \<and> basisPoints (demo_tx demo_entry) = Fin 700"
proof -
  have t: "SendAndConfirm (demo_tx demo_entry)
     \<in> set (snd (mintSingleNFT LIVE (demo_host (Inr ''[1,2,3]'') (Inr three_files) [] [] 3)
         (demo_services (Fin 10) (Fin 100) (Fin 1000) (Inr (Response (Some ''tx1''))))
         ''operator'' (JObject demo_entry)))"
    by (subst demo_mint_calls) (simp_all add: demo_entry_def)
  have r: "royaltyPercentage demo_entry = Some (Fin 7)"
    by (simp add: demo_entry_def)
  from royalty_basis_points [OF t]
  have "royaltyPercentage demo_entry = Some (Fin 7)
      \<longrightarrow> basisPoints (demo_tx demo_entry) = Fin 700"
    by blast
  with r t show ?thesis
    by blast
qed

text \<open>
  Counterexample to C9 as stated: the entry has the royalty percentage 0, and the
  transaction carries 500 basis points, not \<open>0 * 100\<close>.
\<close>

theorem zero_royalty_is_replaced:
  "royaltyPercentage zero_entry = Some (Fin 0)
   \<and> SendAndConfirm (demo_tx zero_entry)
     \<in> set (snd (mintSingleNFT LIVE (demo_host (Inr ''[1,2,3]'') (Inr three_files) [] [] 3)
         (demo_services (Fin 10) (Fin 100) (Fin 1000) (Inr (Response (Some ''tx1''))))
         ''operator'' (JObject zero_entry)))
   \<and> basisPoints (demo_tx zero_entry) = Fin 500
   \<and> js_mul (Fin 0) (Fin 100) = Fin 0"
proof -
  have t: "SendAndConfirm (demo_tx zero_entry)
     \<in> set (snd (mintSingleNFT LIVE (demo_host (Inr ''[1,2,3]'') (Inr three_files) [] [] 3)
         (demo_services (Fin 10) (Fin 100) (Fin 1000) (Inr (Response (Some ''tx1''))))
         ''operator'' (JObject zero_entry)))"
    by (subst demo_mint_calls) (simp_all add: demo_entry_def zero_entry_def)
  have f: "fl 500 = Fin 500"
    using fl_of_int [of 500] by simp
  have z: "fl 0 = Fin 0"
    by (simp add: fl_def)
  show ?thesis
    using t
    by (simp add: demo_tx_def zero_entry_def royalty_basisPoints_def royalty_or_default_def
        LIVE_def CONFIG_def f z)
qed

text \<open>
  C10. When the royalty percentage of the entry is present and 0, the basis points of
  the creation transaction are the default royalty percentage times 100: 500 with the
  default of 5, not 0.
\<close>

theorem zero_royalty_falls_back_to_default:
  assumes "SendAndConfirm tx \<in> set (snd (mintSingleNFT cfg h sv identity (JObject c)))"
    and "royaltyPercentage c = Some (Fin 0)"
  shows "basisPoints tx = js_mul (ROYALTY_PERCENTAGE cfg) (Fin 100)
     \<and> (ROYALTY_PERCENTAGE cfg = Fin 5 \<longrightarrow> basisPoints tx = Fin 500 \<and> basisPoints tx \<noteq> Fin 0)"
proof -
  have b: "basisPoints tx = royalty_basisPoints cfg c"
    using assms(1) mintSingleNFT_object_sends by simp
  have f: "fl 500 = Fin 500"
    using fl_of_int [of 500] by simp
  show ?thesis
    unfolding b royalty_basisPoints_def royalty_or_default_def assms(2)
    by (simp add: f)
qed

theorem zero_royalty_falls_back_to_default_witness:
  "SendAndConfirm (demo_tx zero_entry)
     \<in> set (snd (mintSingleNFT LIVE (demo_host (Inr ''[1,2,3]'') (Inr three_files) [] [] 3)
         (demo_services (Fin 10) (Fin 100) (Fin 1000) (Inr (Response (Some ''tx1''))))
         ''operator'' (JObject zero_entry)))
   \<and> royaltyPercentage zero_entry = Some (Fin 0)
   \<and> ROYALTY_PERCENTAGE LIVE = Fin 5
   \<and> basisPoints (demo_tx zero_entry) = Fin 500
   \<and> basisPoints (demo_tx zero_entry) \<noteq> Fin 0"
proof -
  have t: "SendAndConfirm (demo_tx zero_entry)
     \<in> set (snd (mintSingleNFT LIVE (demo_host (Inr ''[1,2,3]'') (Inr three_files) [] [] 3)
         (demo_services (Fin 10) (Fin 100) (Fin 1000) (Inr (Response (Some ''tx1''))))
         ''operator'' (JObject zero_entry)))"
    by (subst demo_mint_calls) (simp_all add: demo_entry_def zero_entry_def)
  have r: "royaltyPercentage zero_entry = Some (Fin 0)"
    by (simp add: zero_entry_def)
  have d: "ROYALTY_PERCENTAGE LIVE = Fin 5"
    by (simp add: LIVE_def CONFIG_def)
  from zero_royalty_falls_back_to_default [OF t r]
  have "ROYALTY_PERCENTAGE LIVE = Fin 5
      \<longrightarrow> basisPoints (demo_tx zero_entry) = Fin 500 \<and> basisPoints (demo_tx zero_entry) \<noteq> Fin 0"
    by blast
  with d t r show ?thesis
    by blast
qed

end
